theory Spec2Isabelle
  imports Complex_Main
begin

section \<open>JavaScript numbers\<close>

text \<open>
  The engine computes with JavaScript numbers, the binary64 numbers of IEEE 754.
  A finite number is the real it denotes; the three special values are kept: a
  division by zero gives an infinity, or NaN for 0/0, and every comparison with
  NaN is false. Zero carries no sign: the divisors that vanish in the program are
  the integer 0 or sums of non-negative terms starting from the literal 0, so they
  are the positive zero.

  The operations of this section are the exact ones. The rounded operations of
  the next section are the ones the program runs; they are used for the target
  points, the moving averages, the price levels and results of the backtest and
  of the entry and close of a live trade. The two RSI functions, the standard
  deviation, the trailing stop and the comparisons of the exit check are stated on
  the exact operations.
\<close>

datatype jsnum = Fin real | PInf | NInf | NaN

fun jneg :: "jsnum \<Rightarrow> jsnum" where
  "jneg (Fin x) = Fin (- x)"
| "jneg PInf = NInf"
| "jneg NInf = PInf"
| "jneg NaN = NaN"

fun jadd :: "jsnum \<Rightarrow> jsnum \<Rightarrow> jsnum" where
  "jadd NaN _ = NaN"
| "jadd _ NaN = NaN"
| "jadd (Fin x) (Fin y) = Fin (x + y)"
| "jadd (Fin x) PInf = PInf"
| "jadd (Fin x) NInf = NInf"
| "jadd PInf (Fin y) = PInf"
| "jadd NInf (Fin y) = NInf"
| "jadd PInf PInf = PInf"
| "jadd NInf NInf = NInf"
| "jadd PInf NInf = NaN"
| "jadd NInf PInf = NaN"

definition jsub :: "jsnum \<Rightarrow> jsnum \<Rightarrow> jsnum" where
  "jsub a b = jadd a (jneg b)"

text \<open>The sign of an infinite product or quotient: the infinity of that sign, NaN for 0.\<close>

definition jinf :: "real \<Rightarrow> jsnum" where
  "jinf s = (if 0 < s then PInf else if s < 0 then NInf else NaN)"

fun jmul :: "jsnum \<Rightarrow> jsnum \<Rightarrow> jsnum" where
  "jmul NaN _ = NaN"
| "jmul _ NaN = NaN"
| "jmul (Fin x) (Fin y) = Fin (x * y)"
| "jmul (Fin x) PInf = jinf x"
| "jmul (Fin x) NInf = jinf (- x)"
| "jmul PInf (Fin y) = jinf y"
| "jmul NInf (Fin y) = jinf (- y)"
| "jmul PInf PInf = PInf"
| "jmul NInf NInf = PInf"
| "jmul PInf NInf = NInf"
| "jmul NInf PInf = NInf"

fun jdiv :: "jsnum \<Rightarrow> jsnum \<Rightarrow> jsnum" where
  "jdiv NaN _ = NaN"
| "jdiv _ NaN = NaN"
| "jdiv (Fin x) (Fin y) = (if y = 0 then jinf x else Fin (x / y))"
| "jdiv (Fin x) PInf = Fin 0"
| "jdiv (Fin x) NInf = Fin 0"
| "jdiv PInf (Fin y) = (if y < 0 then NInf else PInf)"
| "jdiv NInf (Fin y) = (if y < 0 then PInf else NInf)"
| "jdiv PInf PInf = NaN"
| "jdiv PInf NInf = NaN"
| "jdiv NInf PInf = NaN"
| "jdiv NInf NInf = NaN"

fun jlt :: "jsnum \<Rightarrow> jsnum \<Rightarrow> bool" where
  "jlt NaN _ = False"
| "jlt _ NaN = False"
| "jlt (Fin x) (Fin y) = (x < y)"
| "jlt (Fin x) PInf = True"
| "jlt NInf (Fin y) = True"
| "jlt NInf PInf = True"
| "jlt PInf _ = False"
| "jlt _ NInf = False"

definition jle :: "jsnum \<Rightarrow> jsnum \<Rightarrow> bool" where
  "jle a b = (jlt a b \<or> (a = b \<and> a \<noteq> NaN))"

definition jgt :: "jsnum \<Rightarrow> jsnum \<Rightarrow> bool" where
  "jgt a b = jlt b a"

definition jge :: "jsnum \<Rightarrow> jsnum \<Rightarrow> bool" where
  "jge a b = jle b a"

text \<open>\<^verbatim>\<open>Math.round\<close> rounds to the nearest integer, halves upwards.\<close>

fun jround :: "jsnum \<Rightarrow> jsnum" where
  "jround (Fin x) = Fin (of_int \<lfloor>x + 1 / 2\<rfloor>)"
| "jround PInf = PInf"
| "jround NInf = NInf"
| "jround NaN = NaN"

text \<open>\<^verbatim>\<open>Math.max\<close> of two numbers is NaN as soon as one of them is.\<close>

definition jmax :: "jsnum \<Rightarrow> jsnum \<Rightarrow> jsnum" where
  "jmax a b = (if a = NaN \<or> b = NaN then NaN else if jlt a b then b else a)"

section \<open>Binary64 rounding\<close>

text \<open>
  Rounding to the nearest binary64 number, ties to the even significand. \<open>rhe\<close>
  rounds a real to the nearest integer, halves to the even one; \<open>expo x\<close> is the
  exponent of the binade of \<open>x\<close>, not below that of the subnormal numbers;
  \<open>fl x\<close> rounds the significand of \<open>x\<close> to 53 bits at that exponent; \<open>jfl\<close> adds
  the overflow to an infinity. An arithmetic operation of the program is the exact
  operation followed by this rounding.
\<close>

definition rhe :: "real \<Rightarrow> int" where
  "rhe q = (let f = \<lfloor>q\<rfloor> in
              if q - of_int f < 1 / 2 then f
              else if q - of_int f > 1 / 2 then f + 1
              else if even f then f else f + 1)"

definition expo :: "real \<Rightarrow> int" where
  "expo x = max (- 1022) \<lfloor>log 2 \<bar>x\<bar>\<rfloor>"

definition fl :: "real \<Rightarrow> real" where
  "fl x = (if x = 0 then 0
           else of_int (rhe (x / 2 powr of_int (expo x - 52))) * 2 powr of_int (expo x - 52))"

definition jfl :: "real \<Rightarrow> jsnum" where
  "jfl x = (if 2 ^ 1024 \<le> \<bar>fl x\<bar> then jinf x else Fin (fl x))"

fun jrnd :: "jsnum \<Rightarrow> jsnum" where
  "jrnd (Fin x) = jfl x"
| "jrnd PInf = PInf"
| "jrnd NInf = NInf"
| "jrnd NaN = NaN"

definition dadd :: "jsnum \<Rightarrow> jsnum \<Rightarrow> jsnum" where
  "dadd a b = jrnd (jadd a b)"

definition dsub :: "jsnum \<Rightarrow> jsnum \<Rightarrow> jsnum" where
  "dsub a b = jrnd (jsub a b)"

definition dmul :: "jsnum \<Rightarrow> jsnum \<Rightarrow> jsnum" where
  "dmul a b = jrnd (jmul a b)"

definition ddiv :: "jsnum \<Rightarrow> jsnum \<Rightarrow> jsnum" where
  "ddiv a b = jrnd (jdiv a b)"

section \<open>Entry evaluation\<close>

text \<open>
  The indicator set read by \<^verbatim>\<open>calculateEntryScore\<close>. In the backtest it is
  computed from the candles and may hold NaN; in the live path it is a stored row,
  where an empty column compares as the number 0.
\<close>

record TechnicalIndicators =
  rsi :: jsnum
  ema9 :: jsnum
  ema21 :: jsnum
  macd :: jsnum
  macdSignal :: jsnum
  volatilidade :: jsnum

record EntryScore =
  shouldEnter :: bool
  direction :: string
  score :: int

text \<open>
  \<^verbatim>\<open>TradingEngine.calculateEntryScore\<close>. The function reads the wall clock
  (\<^verbatim>\<open>new Date()\<close>): the pair \<open>now\<close> is (\<^verbatim>\<open>getHours()\<close>, \<^verbatim>\<open>getMinutes()\<close>).
  The market data argument is not read by the source. The mutable locals
  \<^verbatim>\<open>score\<close> and \<^verbatim>\<open>direction\<close> are threaded through the five blocks in order.
\<close>

definition calculateEntryScore :: "nat \<times> nat \<Rightarrow> 'md \<Rightarrow> TechnicalIndicators \<Rightarrow> EntryScore" where
  "calculateEntryScore now marketData indicators =
    (let score0 = (0::int);
         direction0 = ''COMPRA'';
         (score1, direction1) =
           (if jge (rsi indicators) (Fin 30) \<and> jle (rsi indicators) (Fin 70)
              then (score0 + 20, direction0)
            else if jlt (rsi indicators) (Fin 35) then (score0 + 15, ''COMPRA'')
            else if jgt (rsi indicators) (Fin 65) then (score0 + 10, ''VENDA'')
            else (score0, direction0));
         (score2, direction2) =
           (if jgt (ema9 indicators) (ema21 indicators) then (score1 + 20, ''COMPRA'')
            else (score1 + 15, ''VENDA''));
         score3 = (if jgt (macd indicators) (macdSignal indicators) then score2 + 15 else score2);
         score4 = (if jge (volatilidade indicators) (Fin 20) \<and> jle (volatilidade indicators) (Fin 200)
                   then score3 + 20 else score3);
         currentHour = fst now;
         currentMinute = snd now;
         score5 = (if (currentHour = 9 \<and> currentMinute \<ge> 30) \<or>
                      (currentHour \<ge> 10 \<and> currentHour < 17) \<or>
                      (currentHour = 17 \<and> currentMinute \<le> 25)
                   then score4 + 25 else score4)
     in \<lparr> shouldEnter = (score5 \<ge> 60), direction = direction2, score = score5 \<rparr>)"

section \<open>Indicator library\<close>

text \<open>
  Both \<^verbatim>\<open>calculateRSI\<close> methods run the same loop body over an index range:
  \<^verbatim>\<open>change = prices[i] - prices[i - 1]\<close> is added to \<^verbatim>\<open>gains\<close> when positive and
  subtracted from \<^verbatim>\<open>losses\<close> otherwise. The loop runs while \<open>i < stop\<close>. Under the
  length guard of both callers every index read is inside the array.
\<close>

function rsiLoop :: "real list \<Rightarrow> nat \<Rightarrow> nat \<Rightarrow> real \<times> real \<Rightarrow> real \<times> real" where
  "rsiLoop prices i stop (gains, losses) =
     (if i < stop
      then rsiLoop prices (i + 1) stop
             (if prices ! i - prices ! (i - 1) > 0
              then (gains + (prices ! i - prices ! (i - 1)), losses)
              else (gains, losses - (prices ! i - prices ! (i - 1))))
      else (gains, losses))"
  by pat_completeness auto
termination
  by (relation "measure (\<lambda>(prices, i, stop, acc). stop - i)") auto

declare rsiLoop.simps [simp del]

text \<open>
  \<^verbatim>\<open>MarketDataService.calculateRSI\<close> (live indicator path):
  \<^verbatim>\<open>for (let i = prices.length - period; i < prices.length; i++)\<close>, then the guard
  \<^verbatim>\<open>if (avgLoss === 0) return 100\<close>.
\<close>

definition MarketDataService_calculateRSI :: "real list \<Rightarrow> nat \<Rightarrow> jsnum" where
  "MarketDataService_calculateRSI prices period =
     (if length prices < period + 1 then Fin 50
      else let acc = rsiLoop prices (length prices - period) (length prices) (0, 0);
               avgGain = jdiv (Fin (fst acc)) (Fin (real period));
               avgLoss = jdiv (Fin (snd acc)) (Fin (real period))
           in if avgLoss = Fin 0 then Fin 100
              else let rs = jdiv avgGain avgLoss
                   in jsub (Fin 100) (jdiv (Fin 100) (jadd (Fin 1) rs)))"

text \<open>
  \<^verbatim>\<open>TradingEngine.calculateRSI\<close> (backtest path):
  \<^verbatim>\<open>for (let i = 1; i <= period; i++)\<close>, and no guard before the division.
\<close>

definition TradingEngine_calculateRSI :: "real list \<Rightarrow> nat \<Rightarrow> jsnum" where
  "TradingEngine_calculateRSI prices period =
     (if length prices < period + 1 then Fin 50
      else let acc = rsiLoop prices 1 (period + 1) (0, 0);
               avgGain = jdiv (Fin (fst acc)) (Fin (real period));
               avgLoss = jdiv (Fin (snd acc)) (Fin (real period));
               rs = jdiv avgGain avgLoss
           in jsub (Fin 100) (jdiv (Fin 100) (jadd (Fin 1) rs)))"

text \<open>
  \<^verbatim>\<open>calculateEMA\<close>: the loop over \<^verbatim>\<open>prices[1..]\<close>, seeded with \<^verbatim>\<open>prices[0]\<close>,
  each operation rounded:
  \<^verbatim>\<open>ema = (prices[i] * multiplier) + (ema * (1 - multiplier))\<close>.
\<close>

primrec emaLoop :: "jsnum \<Rightarrow> jsnum \<Rightarrow> jsnum list \<Rightarrow> jsnum" where
  "emaLoop multiplier ema [] = ema"
| "emaLoop multiplier ema (p # ps) =
     emaLoop multiplier (dadd (dmul p multiplier) (dmul ema (dsub (Fin 1) multiplier))) ps"

definition calculateEMA :: "jsnum list \<Rightarrow> nat \<Rightarrow> jsnum" where
  "calculateEMA prices period =
     (case prices of
        [] \<Rightarrow> Fin 0
      | [p] \<Rightarrow> p
      | p # ps \<Rightarrow> emaLoop (ddiv (Fin 2) (dadd (Fin (real period)) (Fin 1))) p ps)"

definition calculateStandardDeviation :: "real list \<Rightarrow> real" where
  "calculateStandardDeviation prices =
     (if length prices = 0 then 0
      else let mean = sum_list prices / real (length prices);
               variance = sum_list (map (\<lambda>price. (price - mean) ^ 2) prices) / real (length prices)
           in sqrt variance)"

section \<open>Contract catalog and configuration\<close>

record ContractSpec =
  nome :: string
  valorPonto :: real
  tickSize :: real

text \<open>
  The names every object inherits from \<^verbatim>\<open>Object.prototype\<close>. The table of
  \<^verbatim>\<open>getContractSpec\<close> is an object literal, so \<^verbatim>\<open>specs[contract]\<close> finds an
  inherited member under these names: a function, or the prototype itself for
  \<^verbatim>\<open>__proto__\<close>.
\<close>

definition objectPrototypeKeys :: "string list" where
  "objectPrototypeKeys =
     [''constructor'', ''__defineGetter__'', ''__defineSetter__'', ''hasOwnProperty'',
      ''__lookupGetter__'', ''__lookupSetter__'', ''isPrototypeOf'', ''propertyIsEnumerable'',
      ''toString'', ''valueOf'', ''__proto__'', ''toLocaleString'']"

text \<open>
  \<^verbatim>\<open>getContractSpec\<close>: \<^verbatim>\<open>specs[contract] || specs.WIN\<close>. An inherited member is
  truthy, so it is returned in place of a specification: the result \<open>None\<close>, an
  object without the fields \<^verbatim>\<open>nome\<close>, \<^verbatim>\<open>valorPonto\<close> and \<^verbatim>\<open>tickSize\<close>. The point
  value 0.20 is the binary64 number nearest to it. The contract names are written in
  ASCII.
\<close>

definition getContractSpec :: "string \<Rightarrow> ContractSpec option" where
  "getContractSpec contract =
     (if contract = ''WIN''
        then Some \<lparr> nome = ''Mini Indice Bovespa'', valorPonto = fl 0.20, tickSize = 5 \<rparr>
      else if contract = ''WDO''
        then Some \<lparr> nome = ''Mini Dolar'', valorPonto = 0.50, tickSize = 0.5 \<rparr>
      else if contract \<in> set objectPrototypeKeys then None
      else Some \<lparr> nome = ''Mini Indice Bovespa'', valorPonto = fl 0.20, tickSize = 5 \<rparr>)"

text \<open>
  \<^verbatim>\<open>contractSpec.valorPonto\<close> as an operand: the missing field reads
  \<^verbatim>\<open>undefined\<close>, which is NaN in arithmetic.
\<close>

definition valorPontoOf :: "ContractSpec option \<Rightarrow> jsnum" where
  "valorPontoOf spec = (case spec of Some s \<Rightarrow> Fin (valorPonto s) | None \<Rightarrow> NaN)"

text \<open>
  The fields of \<^verbatim>\<open>BotConfiguration\<close> that the engine reads. \<open>cfgId\<close> and
  \<open>cfgUserId\<close> are the columns \<^verbatim>\<open>id\<close> and \<^verbatim>\<open>userId\<close>. \<open>metaLucroDiario\<close> is
  the decimal number held by the column (precision 10, scale 2), which
  \<^verbatim>\<open>parseFloat\<close> rounds to a binary64 number; the integer columns hold 32-bit
  integers. The columns are taken to be filled (they have defaults).
\<close>

record BotConfiguration =
  cfgId :: string
  cfgUserId :: string
  isActive :: bool
  contratos :: int
  metaLucroDiario :: real
  stopLossPontos :: int
  maxTradesDia :: int
  contratoPreferido :: string
  trailingStopAtivo :: bool
  trailingStopPontos :: int

definition calculateTargetPoints :: "BotConfiguration \<Rightarrow> jsnum" where
  "calculateTargetPoints config =
     (let contractSpec = getContractSpec (contratoPreferido config);
          valuePerPoint = dmul (valorPontoOf contractSpec) (Fin (real_of_int (contratos config)));
          targetValue = ddiv (jfl (metaLucroDiario config)) (Fin (real_of_int (maxTradesDia config)))
      in jmax (Fin 1) (jround (ddiv targetValue valuePerPoint)))"

section \<open>Live engine state\<close>

text \<open>
  The rows of the \<^verbatim>\<open>trades\<close> table, with the columns the engine reads or writes.
  \<open>tradeId\<close>, \<open>tradeUserId\<close> and \<open>tradeContratos\<close> are the columns \<^verbatim>\<open>id\<close>,
  \<^verbatim>\<open>userId\<close> and \<^verbatim>\<open>contratos\<close>; \<open>resultado\<close> is the number whose decimal string
  the source stores; the two time stamps are in milliseconds. The take-profit, exit
  price and result are computed from the target points and may be NaN or infinite.
  The storage is taken to return the numbers it was given: the precision of its
  columns is not modelled.
\<close>

record Trade =
  tradeId :: string
  tradeUserId :: string
  botConfigId :: "string option"
  contrato :: string
  tipo :: string
  pontosEntrada :: real
  pontosSaida :: "jsnum option"
  pontosTakeProfit :: jsnum
  pontosStopLoss :: real
  tradeContratos :: int
  valorPorPonto :: real
  resultado :: jsnum
  motivoSaida :: "string option"
  status :: string
  horarioEntrada :: nat
  horarioSaida :: "nat option"

text \<open>The market data object: the fields the engine reads.\<close>

record MarketData =
  symbol :: string
  close :: real
  timestamp :: nat

record BotStatus =
  bsIsActive :: bool
  bsUserId :: string
  configId :: string
  currentPosition :: "Trade option"
  dailyTrades :: int
  dailyProfit :: jsnum
  lastActivity :: nat

text \<open>
  Log messages are built by the source from fixed text and formatted numbers; the
  model keeps which message it is and the numbers it carries.
\<close>

datatype LogMessage =
  BotIniciado
| BotParado
| SemDadosDeMercado
| LimiteDiarioAtingido
| MetaDiariaAtingida
| ErroNoMonitoramento
| TrailingStopAtualizado real
| TradeExecutado string real jsnum real
| TradeFechado real jsnum jsnum

record BotLog =
  logUserId :: string
  logBotConfigId :: "string option"
  level :: string
  message :: LogMessage

text \<open>
  The events emitted: a status change carrying the runtime state, the status
  change \<^verbatim>\<open>{ isActive: false }\<close> of a stop, and a trade update.
\<close>

datatype Event =
  BotStatusChange string BotStatus
| BotStatusInactive string
| TradeUpdate string "Trade option"

record TradeOrder =
  orderSymbol :: string
  side :: string
  quantity :: int
  price :: jsnum

text \<open>
  Everything a call of the engine can change: the two maps of the engine object
  (\<^verbatim>\<open>activeBots\<close>, \<^verbatim>\<open>intervalHandles\<close>), the timers of the runtime
  (\<^verbatim>\<open>setInterval\<close> registers a handle with the user it monitors and its period in
  milliseconds), the tables of the storage, the events emitted and the orders
  handed to the broker service.
\<close>

record World =
  activeBots :: "string \<rightharpoonup> BotStatus"
  intervalHandles :: "string \<rightharpoonup> nat"
  timers :: "nat \<rightharpoonup> string \<times> nat"
  nextHandle :: nat
  botConfigurations :: "BotConfiguration list"
  tradesTable :: "Trade list"
  botLogs :: "BotLog list"
  emitted :: "Event list"
  brokerOrders :: "TradeOrder list"

text \<open>
  What one monitoring tick reads from outside the engine: the clock (milliseconds,
  read in one time zone without daylight-saving shifts), the market data service
  (\<^verbatim>\<open>getLatestMarketData(symbol)\<close>, \<^verbatim>\<open>getTechnicalIndicators(symbol, timeframe)\<close>)
  and the identifier the database generates for an inserted trade.
\<close>

record Tick =
  tickNow :: nat
  latestMarketData :: "string \<Rightarrow> MarketData option"
  latestIndicators :: "string \<Rightarrow> string \<Rightarrow> TechnicalIndicators option"
  freshTradeId :: string

datatype error = AlreadyActive | NotActive | InsufficientData | TypeError | DbError

subsection \<open>Storage and collaborators\<close>

text \<open>
  \<^verbatim>\<open>storage.getBotConfiguration(id, userId)\<close>: the first row with that id and user.
\<close>

definition getBotConfiguration :: "World \<Rightarrow> string \<Rightarrow> string \<Rightarrow> BotConfiguration option" where
  "getBotConfiguration w cid userId =
     find (\<lambda>c. cfgId c = cid \<and> cfgUserId c = userId) (botConfigurations w)"

text \<open>
  \<^verbatim>\<open>storage.updateBotConfiguration(id, userId, {isActive})\<close>: an update of the rows
  with that id and user.
\<close>

definition updateBotConfiguration :: "string \<Rightarrow> string \<Rightarrow> bool \<Rightarrow> BotConfiguration list \<Rightarrow> BotConfiguration list" where
  "updateBotConfiguration cid userId active rows =
     map (\<lambda>c. if cfgId c = cid \<and> cfgUserId c = userId then c \<lparr> isActive := active \<rparr> else c) rows"

text \<open>
  \<^verbatim>\<open>storage.getTrades(userId, { limit: 1, status: 'ATIVO' })[0]\<close>: of the open
  trades of the user, the one entered last. The order of rows entered at the same
  time is not fixed by the query; the model takes the first of them in the table.
\<close>

fun latestEntered :: "Trade list \<Rightarrow> Trade option" where
  "latestEntered [] = None"
| "latestEntered (t # ts) =
     (case latestEntered ts of
        None \<Rightarrow> Some t
      | Some t' \<Rightarrow> if horarioEntrada t' > horarioEntrada t then Some t' else Some t)"

definition getOpenTrade :: "World \<Rightarrow> string \<Rightarrow> Trade option" where
  "getOpenTrade w userId =
     latestEntered (filter (\<lambda>t. tradeUserId t = userId \<and> status t = ''ATIVO'') (tradesTable w))"

text \<open>
  \<^verbatim>\<open>storage.getDailyMetrics(userId)\<close>, the two fields the engine reads: the count
  of the user's trades entered between the last midnight and the next one, open
  or closed, and the sum of their results, which is missing when there is none.
\<close>

definition getDailyMetrics :: "World \<Rightarrow> string \<Rightarrow> nat \<Rightarrow> int \<times> jsnum option" where
  "getDailyMetrics w userId now =
     (let today = now - now mod 86400000;
          tomorrow = today + 86400000;
          rows = filter (\<lambda>t. tradeUserId t = userId \<and> horarioEntrada t \<ge> today
                              \<and> horarioEntrada t \<le> tomorrow) (tradesTable w)
      in (int (length rows),
          if rows = [] then None else Some (foldl jadd (Fin 0) (map resultado rows))))"

text \<open>\<^verbatim>\<open>storage.updateTradeStopLoss(id, newStopLoss)\<close>: an update of the rows with that id.\<close>

definition updateTradeStopLoss :: "string \<Rightarrow> real \<Rightarrow> Trade list \<Rightarrow> Trade list" where
  "updateTradeStopLoss tid newStopLoss rows =
     map (\<lambda>t. if tradeId t = tid then t \<lparr> pontosStopLoss := newStopLoss \<rparr> else t) rows"

text \<open>
  \<^verbatim>\<open>storage.closeTrade(id, userId, updates)\<close>: an update of the rows with that id
  and user; the first updated row is returned.
\<close>

definition closeTradeRow :: "jsnum \<Rightarrow> string \<Rightarrow> jsnum \<Rightarrow> nat \<Rightarrow> Trade \<Rightarrow> Trade" where
  "closeTradeRow exitPrice reason res now t =
     t \<lparr> pontosSaida := Some exitPrice, motivoSaida := Some reason, resultado := res,
         horarioSaida := Some now, status := ''FECHADO'' \<rparr>"

definition closeTrade :: "string \<Rightarrow> string \<Rightarrow> jsnum \<Rightarrow> string \<Rightarrow> jsnum \<Rightarrow> nat \<Rightarrow> Trade list \<Rightarrow> Trade list \<times> Trade option" where
  "closeTrade tid userId exitPrice reason res now rows =
     (map (\<lambda>t. if tradeId t = tid \<and> tradeUserId t = userId
                then closeTradeRow exitPrice reason res now t else t) rows,
      map_option (closeTradeRow exitPrice reason res now)
        (find (\<lambda>t. tradeId t = tid \<and> tradeUserId t = userId) rows))"

text \<open>\<^verbatim>\<open>logBotActivity\<close>: one row appended to the log table.\<close>

definition logBotActivity :: "World \<Rightarrow> string \<Rightarrow> string option \<Rightarrow> string \<Rightarrow> LogMessage \<Rightarrow> World" where
  "logBotActivity w userId cid lvl msg =
     w \<lparr> botLogs := botLogs w @ [\<lparr> logUserId = userId, logBotConfigId = cid, level = lvl, message = msg \<rparr>] \<rparr>"

definition emit :: "World \<Rightarrow> Event \<Rightarrow> World" where
  "emit w e = w \<lparr> emitted := emitted w @ [e] \<rparr>"

text \<open>\<^verbatim>\<open>brokerService.executeTrade\<close>: the simulated broker accepts every order.\<close>

definition executeTrade :: "World \<Rightarrow> TradeOrder \<Rightarrow> World" where
  "executeTrade w order = w \<lparr> brokerOrders := brokerOrders w @ [order] \<rparr>"

subsection \<open>Bot lifecycle: start\<close>

text \<open>
  \<^verbatim>\<open>startBot\<close>. The result is the outcome of the call (the error thrown, or
  nothing) and the state after it. \<open>now\<close> is the time read for \<^verbatim>\<open>lastActivity\<close>.
\<close>

definition startBot :: "World \<Rightarrow> string \<Rightarrow> BotConfiguration \<Rightarrow> nat \<Rightarrow> (error + unit) \<times> World" where
  "startBot w userId config now =
     (if activeBots w userId \<noteq> None then (Inl AlreadyActive, w)
      else
        let botStatus = \<lparr> bsIsActive = True, bsUserId = userId, configId = cfgId config,
                          currentPosition = None, dailyTrades = 0, dailyProfit = Fin 0,
                          lastActivity = now \<rparr>;
            w1 = w \<lparr> activeBots := (activeBots w)(userId \<mapsto> botStatus) \<rparr>;
            w2 = w1 \<lparr> botConfigurations :=
                        updateBotConfiguration (cfgId config) userId True (botConfigurations w1) \<rparr>;
            intervalHandle = nextHandle w2;
            w3 = w2 \<lparr> timers := (timers w2)(intervalHandle \<mapsto> (userId, 30000)),
                      nextHandle := intervalHandle + 1 \<rparr>;
            w4 = w3 \<lparr> intervalHandles := (intervalHandles w3)(userId \<mapsto> intervalHandle) \<rparr>;
            w5 = emit w4 (BotStatusChange userId botStatus);
            w6 = logBotActivity w5 userId (Some (cfgId config)) ''INFO'' BotIniciado
        in (Inr (), w6))"

subsection \<open>Risk manager: trailing stop, exit check, close\<close>

text \<open>
  \<^verbatim>\<open>updateTrailingStop\<close>. The locals \<^verbatim>\<open>newStopLoss\<close> and \<^verbatim>\<open>updated\<close> are set in
  one of the two branches; the storage is written and a log row appended only
  when \<^verbatim>\<open>updated\<close> is true. Every \<^verbatim>\<open>tipo\<close> other than COMPRA takes the VENDA branch.
\<close>

definition updateTrailingStop :: "World \<Rightarrow> string \<Rightarrow> Trade \<Rightarrow> real \<Rightarrow> real \<Rightarrow> World" where
  "updateTrailingStop w userId trade currentPrice trailingPoints =
     (let (newStopLoss, updated) =
            (if tipo trade = ''COMPRA''
             then (let trailingStop = currentPrice - trailingPoints
                   in if trailingStop > pontosStopLoss trade then (trailingStop, True)
                      else (pontosStopLoss trade, False))
             else (let trailingStop = currentPrice + trailingPoints
                   in if trailingStop < pontosStopLoss trade then (trailingStop, True)
                      else (pontosStopLoss trade, False)))
      in if updated
         then logBotActivity
                (w \<lparr> tradesTable := updateTradeStopLoss (tradeId trade) newStopLoss (tradesTable w) \<rparr>)
                userId (botConfigId trade) ''INFO'' (TrailingStopAtualizado newStopLoss)
         else w)"

text \<open>
  \<^verbatim>\<open>closePosition\<close>: the realised result, the closing order on the opposite side,
  the update of the trade row, the event and the log row.
\<close>

definition closePosition :: "World \<Rightarrow> string \<Rightarrow> Trade \<Rightarrow> jsnum \<Rightarrow> string \<Rightarrow> nat \<Rightarrow> World" where
  "closePosition w userId trade exitPrice reason now =
     (let contractSpec = getContractSpec (contrato trade);
          pointsGained = (if tipo trade = ''COMPRA'' then dsub exitPrice (Fin (pontosEntrada trade))
                          else dsub (Fin (pontosEntrada trade)) exitPrice);
          res = dmul (dmul pointsGained (valorPontoOf contractSpec))
                     (Fin (real_of_int (tradeContratos trade)));
          w1 = executeTrade w \<lparr> orderSymbol = contrato trade,
                 side = (if tipo trade = ''COMPRA'' then ''VENDA'' else ''COMPRA''),
                 quantity = tradeContratos trade, price = exitPrice \<rparr>;
          (rows, updatedTrade) = closeTrade (tradeId trade) userId exitPrice reason res now (tradesTable w1);
          w2 = w1 \<lparr> tradesTable := rows \<rparr>;
          w3 = emit w2 (TradeUpdate userId updatedTrade)
      in logBotActivity w3 userId (botConfigId trade) ''INFO''
           (TradeFechado (pontosEntrada trade) exitPrice res))"

text \<open>
  \<^verbatim>\<open>monitorPosition\<close>: the exit check on the current price, then the trailing
  stop when it is enabled and no exit was triggered, then the close.
\<close>

definition monitorPosition :: "World \<Rightarrow> string \<Rightarrow> Trade \<Rightarrow> MarketData \<Rightarrow> BotConfiguration \<Rightarrow> nat \<Rightarrow> World" where
  "monitorPosition w userId trade marketData config now =
     (let currentPrice = close marketData;
          takeProfit = pontosTakeProfit trade;
          stopLoss = pontosStopLoss trade;
          (shouldClose, exitReason, exitPrice) =
            (if tipo trade = ''COMPRA''
             then (if jge (Fin currentPrice) takeProfit then (True, ''TAKE_PROFIT'', takeProfit)
                   else if currentPrice \<le> stopLoss then (True, ''STOP_LOSS'', Fin stopLoss)
                   else (False, '''', Fin currentPrice))
             else (if jle (Fin currentPrice) takeProfit then (True, ''TAKE_PROFIT'', takeProfit)
                   else if currentPrice \<ge> stopLoss then (True, ''STOP_LOSS'', Fin stopLoss)
                   else (False, '''', Fin currentPrice)));
          w1 = (if trailingStopAtivo config \<and> \<not> shouldClose
                then updateTrailingStop w userId trade currentPrice (real_of_int (trailingStopPontos config))
                else w)
      in if shouldClose then closePosition w1 userId trade exitPrice exitReason now else w1)"

subsection \<open>Entry\<close>

text \<open>
  \<^verbatim>\<open>executeEntry\<close>: the price levels, the order, the insertion of the trade row,
  the event and the log row. The simulated broker reports success for every order,
  so the failure branch is not taken. The insertion fails when the contract lookup
  returned an inherited member: \<^verbatim>\<open>valorPorPonto\<close> is then \<^verbatim>\<open>undefined\<close> for a
  column that must be filled, and the error is thrown after the order was placed.
\<close>

definition executeEntry :: "World \<Rightarrow> Tick \<Rightarrow> string \<Rightarrow> BotConfiguration \<Rightarrow> MarketData \<Rightarrow> string \<Rightarrow> (error + unit) \<times> World" where
  "executeEntry w tick userId config marketData dir =
     (let entryPrice = close marketData;
          contractSpec = getContractSpec (contratoPreferido config);
          targetPoints = calculateTargetPoints config;
          takeProfit = (if dir = ''COMPRA'' then dadd (Fin entryPrice) targetPoints
                        else dsub (Fin entryPrice) targetPoints);
          stopLoss = (if dir = ''COMPRA'' then fl (entryPrice - real_of_int (stopLossPontos config))
                      else fl (entryPrice + real_of_int (stopLossPontos config)));
          w1 = executeTrade w \<lparr> orderSymbol = contratoPreferido config, side = dir,
                 quantity = contratos config, price = Fin entryPrice \<rparr>
      in case contractSpec of
           None \<Rightarrow> (Inl DbError, w1)
         | Some spec \<Rightarrow>
             let trade = \<lparr> tradeId = freshTradeId tick, tradeUserId = userId,
                           botConfigId = Some (cfgId config), contrato = contratoPreferido config,
                           tipo = dir, pontosEntrada = entryPrice, pontosSaida = None,
                           pontosTakeProfit = takeProfit, pontosStopLoss = stopLoss,
                           tradeContratos = contratos config, valorPorPonto = valorPonto spec,
                           resultado = Fin 0, motivoSaida = None, status = ''ATIVO'',
                           horarioEntrada = tickNow tick, horarioSaida = None \<rparr>;
                 w2 = w1 \<lparr> tradesTable := tradesTable w1 @ [trade] \<rparr>;
                 w3 = emit w2 (TradeUpdate userId (Some trade))
             in (Inr (), logBotActivity w3 userId (Some (cfgId config)) ''INFO''
                           (TradeExecutado dir entryPrice takeProfit stopLoss)))"

text \<open>
  \<^verbatim>\<open>evaluateEntry\<close>: no entry without indicators; the clock of the entry score is
  the hour and minute of the tick.
\<close>

definition evaluateEntry :: "World \<Rightarrow> Tick \<Rightarrow> string \<Rightarrow> BotConfiguration \<Rightarrow> MarketData \<Rightarrow> (error + unit) \<times> World" where
  "evaluateEntry w tick userId config marketData =
     (case latestIndicators tick (contratoPreferido config) ''5m'' of
        None \<Rightarrow> (Inr (), w)
      | Some technicalIndicators \<Rightarrow>
          let entryScore = calculateEntryScore
                ((tickNow tick div 3600000) mod 24, (tickNow tick div 60000) mod 60)
                marketData technicalIndicators
          in if shouldEnter entryScore
             then executeEntry w tick userId config marketData (direction entryScore)
             else (Inr (), w))"

subsection \<open>Bot lifecycle: stop and the monitoring tick\<close>

text \<open>\<^verbatim>\<open>forceClosePosition\<close>: the open trade is closed at the latest price, if there is one.\<close>

definition forceClosePosition :: "World \<Rightarrow> Tick \<Rightarrow> string \<Rightarrow> string \<Rightarrow> World" where
  "forceClosePosition w tick userId reason =
     (case getOpenTrade w userId of
        None \<Rightarrow> w
      | Some trade \<Rightarrow>
          (case latestMarketData tick (contrato trade) of
             None \<Rightarrow> w
           | Some marketData \<Rightarrow>
               closePosition w userId trade (Fin (close marketData)) reason (tickNow tick)))"

text \<open>
  \<^verbatim>\<open>stopBot\<close>: the timer is cleared (a registered handle is an object, so the
  test of the handle succeeds), an open position of the runtime state is
  force-closed, the configuration flag reset, the runtime state removed.
\<close>

definition stopBot :: "World \<Rightarrow> Tick \<Rightarrow> string \<Rightarrow> (error + unit) \<times> World" where
  "stopBot w tick userId =
     (case activeBots w userId of
        None \<Rightarrow> (Inl NotActive, w)
      | Some botStatus \<Rightarrow>
          let w1 = (case intervalHandles w userId of
                      None \<Rightarrow> w
                    | Some intervalHandle \<Rightarrow>
                        w \<lparr> timers := (timers w)(intervalHandle := None),
                            intervalHandles := (intervalHandles w)(userId := None) \<rparr>);
              w2 = (if (case currentPosition botStatus of
                          None \<Rightarrow> False
                        | Some position \<Rightarrow> status position = ''ATIVO'')
                    then forceClosePosition w1 tick userId ''BOT_STOPPED'' else w1);
              w3 = w2 \<lparr> botConfigurations :=
                          updateBotConfiguration (configId botStatus) userId False (botConfigurations w2) \<rparr>;
              w4 = w3 \<lparr> activeBots := (activeBots w3)(userId := None) \<rparr>;
              w5 = emit w4 (BotStatusInactive userId)
          in (Inr (), logBotActivity w5 userId (Some (configId botStatus)) ''INFO'' BotParado))"

text \<open>
  \<^verbatim>\<open>monitorBot\<close>, one monitoring tick. The runtime state is the object held by
  \<^verbatim>\<open>activeBots\<close>, so the assignments to its fields are visible in the map at once.
  The two daily limits are tested before the position is looked at, and each of
  them ends the tick. An error thrown inside the tick is caught and logged.
\<close>

definition monitorBot :: "World \<Rightarrow> Tick \<Rightarrow> string \<Rightarrow> World" where
  "monitorBot w tick userId =
     (case activeBots w userId of
        None \<Rightarrow> w
      | Some botStatus \<Rightarrow>
          (case getBotConfiguration w (configId botStatus) userId of
             None \<Rightarrow> snd (stopBot w tick userId)
           | Some config \<Rightarrow>
               (case latestMarketData tick (contratoPreferido config) of
                  None \<Rightarrow> logBotActivity w userId (Some (cfgId config)) ''WARNING'' SemDadosDeMercado
                | Some marketData \<Rightarrow>
                    let (totalTrades, totalProfit) = getDailyMetrics w userId (tickNow tick);
                        botStatus1 = botStatus
                          \<lparr> currentPosition := getOpenTrade w userId,
                            dailyTrades := totalTrades,
                            dailyProfit := (case totalProfit of None \<Rightarrow> Fin 0 | Some s \<Rightarrow> jrnd s) \<rparr>;
                        w1 = w \<lparr> activeBots := (activeBots w)(userId \<mapsto> botStatus1) \<rparr>
                    in if dailyTrades botStatus1 \<ge> maxTradesDia config
                       then logBotActivity w1 userId (Some (cfgId config)) ''INFO'' LimiteDiarioAtingido
                       else if jge (dailyProfit botStatus1) (jfl (metaLucroDiario config))
                       then snd (stopBot
                              (logBotActivity w1 userId (Some (cfgId config)) ''INFO'' MetaDiariaAtingida)
                              tick userId)
                       else
                         (case (case currentPosition botStatus1 of
                                  Some trade \<Rightarrow>
                                    (Inr (), monitorPosition w1 userId trade marketData config (tickNow tick))
                                | None \<Rightarrow> evaluateEntry w1 tick userId config marketData) of
                            (Inl e, w2) \<Rightarrow>
                              logBotActivity w2 userId (Some (configId botStatus)) ''ERROR'' ErroNoMonitoramento
                          | (Inr u, w2) \<Rightarrow>
                              w2 \<lparr> activeBots := (activeBots w2)
                                     (userId \<mapsto> botStatus1 \<lparr> lastActivity := tickNow tick \<rparr>) \<rparr>))))"

section \<open>Backtest simulator\<close>

text \<open>\<^verbatim>\<open>xs.slice(a, b)\<close> for \<open>0 \<le> a\<close>, and \<^verbatim>\<open>xs.slice(-n)\<close>; both clip at the ends.\<close>

definition slice :: "nat \<Rightarrow> nat \<Rightarrow> 'a list \<Rightarrow> 'a list" where
  "slice a b xs = take (b - a) (drop a xs)"

definition sliceLast :: "nat \<Rightarrow> 'a list \<Rightarrow> 'a list" where
  "sliceLast n xs = drop (length xs - n) xs"

text \<open>\<^verbatim>\<open>calculateIndicatorsForCandle\<close>: \<^verbatim>\<open>null\<close> below index 21.\<close>

definition calculateIndicatorsForCandle :: "MarketData list \<Rightarrow> nat \<Rightarrow> TechnicalIndicators option" where
  "calculateIndicatorsForCandle data index =
     (if index < 21 then None
      else
        let closes = map close (slice (index - 20) (index + 1) data);
            rsiV = TradingEngine_calculateRSI closes 9;
            ema9V = calculateEMA (map Fin closes) 9;
            ema21V = calculateEMA (map Fin closes) 21;
            macdV = dsub (calculateEMA (map Fin closes) 8) (calculateEMA (map Fin closes) 17);
            macdSignalV = calculateEMA [macdV] 6;
            volatilidadeV = calculateStandardDeviation (sliceLast 10 closes)
        in Some \<lparr> rsi = rsiV, ema9 = ema9V, ema21 = ema21V, macd = macdV,
                  macdSignal = macdSignalV, volatilidade = Fin volatilidadeV \<rparr>)"

text \<open>
  The synthetic position and the trade records of \<^verbatim>\<open>runBacktest\<close>. \<open>posDirection\<close>
  is the field \<^verbatim>\<open>direction\<close> of the position; \<open>btEntryTime\<close>, \<open>btDirection\<close>,
  \<open>btEntryPrice\<close> and \<open>tradeReturn\<close> are the fields \<^verbatim>\<open>entryTime\<close>,
  \<^verbatim>\<open>direction\<close>, \<^verbatim>\<open>entryPrice\<close> and \<^verbatim>\<open>return\<close> of a trade record.
\<close>

record BacktestPosition =
  entryPrice :: real
  entryTime :: nat
  posDirection :: string
  takeProfit :: jsnum
  stopLoss :: jsnum

record BacktestTrade =
  btEntryTime :: nat
  exitTime :: nat
  btDirection :: string
  btEntryPrice :: real
  exitPrice :: jsnum
  pointsGained :: jsnum
  tradeReturn :: jsnum
  reason :: string

text \<open>The locals \<^verbatim>\<open>currentPosition\<close>, \<^verbatim>\<open>trades\<close> and \<^verbatim>\<open>totalReturn\<close> of the loop.\<close>

record BacktestState =
  bt_currentPosition :: "BacktestPosition option"
  bt_trades :: "BacktestTrade list"
  bt_totalReturn :: jsnum

text \<open>
  The body of the main loop at index \<open>i\<close>. Without a position the entry score is
  computed from the indicators (a \<^verbatim>\<open>null\<close> indicator set makes the property read
  throw); with a position the exit conditions are checked on the close.
\<close>

definition backtestStep :: "nat \<times> nat \<Rightarrow> BotConfiguration \<Rightarrow> MarketData list \<Rightarrow> nat \<Rightarrow> BacktestState \<Rightarrow> error + BacktestState" where
  "backtestStep now config marketData i st =
     (let contractSpec = getContractSpec (contratoPreferido config);
          current = marketData ! i;
          indicators = calculateIndicatorsForCandle marketData i
      in case bt_currentPosition st of
           None \<Rightarrow>
             (case indicators of
                None \<Rightarrow> Inl TypeError
              | Some ind \<Rightarrow>
                  let entryScore = calculateEntryScore now current ind
                  in if shouldEnter entryScore
                     then
                       let targetPoints = calculateTargetPoints config
                       in Inr (st \<lparr> bt_currentPosition := Some
                            \<lparr> entryPrice = close current,
                              entryTime = timestamp current,
                              posDirection = direction entryScore,
                              takeProfit = (if direction entryScore = ''COMPRA''
                                            then dadd (Fin (close current)) targetPoints
                                            else dsub (Fin (close current)) targetPoints),
                              stopLoss = (if direction entryScore = ''COMPRA''
                                          then dsub (Fin (close current))
                                                 (Fin (real_of_int (stopLossPontos config)))
                                          else dadd (Fin (close current))
                                                 (Fin (real_of_int (stopLossPontos config)))) \<rparr> \<rparr>)
                     else Inr st)
         | Some pos \<Rightarrow>
             let (shouldExit, exitPriceV, exitReason) =
                   (if posDirection pos = ''COMPRA''
                    then (if jge (Fin (close current)) (takeProfit pos)
                            then (True, takeProfit pos, ''TAKE_PROFIT'')
                          else if jle (Fin (close current)) (stopLoss pos)
                            then (True, stopLoss pos, ''STOP_LOSS'')
                          else (False, Fin (close current), ''TIME''))
                    else (if jle (Fin (close current)) (takeProfit pos)
                            then (True, takeProfit pos, ''TAKE_PROFIT'')
                          else if jge (Fin (close current)) (stopLoss pos)
                            then (True, stopLoss pos, ''STOP_LOSS'')
                          else (False, Fin (close current), ''TIME'')))
             in if shouldExit
                then
                  let pointsGainedV = (if posDirection pos = ''COMPRA''
                                       then dsub exitPriceV (Fin (entryPrice pos))
                                       else dsub (Fin (entryPrice pos)) exitPriceV);
                      ret = dmul (dmul pointsGainedV (valorPontoOf contractSpec))
                                 (Fin (real_of_int (contratos config)))
                  in Inr (st \<lparr> bt_totalReturn := dadd (bt_totalReturn st) ret,
                               bt_trades := bt_trades st @
                                 [\<lparr> btEntryTime = entryTime pos,
                                    exitTime = timestamp current,
                                    btDirection = posDirection pos,
                                    btEntryPrice = entryPrice pos,
                                    exitPrice = exitPriceV,
                                    pointsGained = pointsGainedV,
                                    tradeReturn = ret,
                                    reason = exitReason \<rparr>],
                               bt_currentPosition := None \<rparr>)
                else Inr st)"

text \<open>
  \<^verbatim>\<open>for (let i = 21; i < marketData.length; i++)\<close>. The entry score reads the wall
  clock at every evaluation: \<open>clock i\<close> is the time read in iteration \<open>i\<close>.
\<close>

function backtestLoop :: "(nat \<Rightarrow> nat \<times> nat) \<Rightarrow> BotConfiguration \<Rightarrow> MarketData list \<Rightarrow> nat \<Rightarrow> BacktestState \<Rightarrow> error + BacktestState" where
  "backtestLoop clock config marketData i st =
     (if i < length marketData
      then (case backtestStep (clock i) config marketData i st of
              Inl e \<Rightarrow> Inl e
            | Inr st' \<Rightarrow> backtestLoop clock config marketData (i + 1) st')
      else Inr st)"
  by pat_completeness auto
termination
  by (relation "measure (\<lambda>(clock, config, marketData, i, st). length marketData - i)") auto

declare backtestLoop.simps [simp del]

text \<open>The drawdown loop over the trades, with the locals \<^verbatim>\<open>maxDrawdown\<close>, \<^verbatim>\<open>peak\<close>, \<^verbatim>\<open>runningTotal\<close>.\<close>

fun drawdownLoop :: "BacktestTrade list \<Rightarrow> jsnum \<times> jsnum \<times> jsnum \<Rightarrow> jsnum" where
  "drawdownLoop [] (maxDrawdownV, peak, runningTotal) = maxDrawdownV"
| "drawdownLoop (trade # rest) (maxDrawdownV, peak, runningTotal) =
     (let runningTotal' = dadd runningTotal (tradeReturn trade);
          peak' = (if jgt runningTotal' peak then runningTotal' else peak);
          drawdown = dsub peak' runningTotal';
          maxDrawdown' = (if jgt drawdown maxDrawdownV then drawdown else maxDrawdownV)
      in drawdownLoop rest (maxDrawdown', peak', runningTotal'))"

record BacktestResult =
  totalTrades :: nat
  winningTrades :: nat
  losingTrades :: nat
  totalReturn :: jsnum
  averageReturn :: jsnum
  maxDrawdown :: jsnum
  winRate :: jsnum
  trades :: "BacktestTrade list"

text \<open>
  The statistics \<^verbatim>\<open>runBacktest\<close> computes after the main loop, from the trades
  recorded and the total return.
\<close>

definition backtestStatistics :: "BacktestState \<Rightarrow> BacktestResult" where
  "backtestStatistics st =
     (let tradesV = bt_trades st;
          winning = length (filter (\<lambda>t. jgt (tradeReturn t) (Fin 0)) tradesV);
          losing = length (filter (\<lambda>t. jle (tradeReturn t) (Fin 0)) tradesV);
          winRateV = (if length tradesV > 0
                      then dmul (ddiv (Fin (real winning)) (Fin (real (length tradesV)))) (Fin 100)
                      else Fin 0);
          averageReturnV = (if length tradesV > 0
                            then ddiv (bt_totalReturn st) (Fin (real (length tradesV)))
                            else Fin 0)
      in \<lparr> totalTrades = length tradesV,
           winningTrades = winning,
           losingTrades = losing,
           totalReturn = bt_totalReturn st,
           averageReturn = averageReturnV,
           maxDrawdown = drawdownLoop tradesV (Fin 0, Fin 0, Fin 0),
           winRate = winRateV,
           trades = tradesV \<rparr>)"

text \<open>
  \<^verbatim>\<open>runBacktest\<close>, from the series that \<^verbatim>\<open>getHistoricalData\<close> returned (\<open>None\<close> for
  a missing one): the length check, the main loop from index 21, the statistics.
\<close>

definition runBacktest :: "(nat \<Rightarrow> nat \<times> nat) \<Rightarrow> BotConfiguration \<Rightarrow> MarketData list option \<Rightarrow> error + BacktestResult" where
  "runBacktest clock config fetched =
     (case fetched of
        None \<Rightarrow> Inl InsufficientData
      | Some marketData \<Rightarrow>
          if length marketData < 50 then Inl InsufficientData
          else
            (case backtestLoop clock config marketData 21
                    \<lparr> bt_currentPosition = None, bt_trades = [], bt_totalReturn = Fin 0 \<rparr> of
               Inl e \<Rightarrow> Inl e
             | Inr st \<Rightarrow> Inr (backtestStatistics st)))"

section \<open>Notions used to state the properties\<close>

text \<open>
  The five contributions, as the strategy states them. The session window is stated
  on the minute of the day; the source tests hours and minutes separately.
\<close>

definition rsiPoints :: "jsnum \<Rightarrow> int" where
  "rsiPoints r = (if jge r (Fin 30) \<and> jle r (Fin 70) then 20
                  else if jlt r (Fin 35) then 15
                  else if jgt r (Fin 65) then 10 else 0)"

definition inTradingWindow :: "nat \<times> nat \<Rightarrow> bool" where
  "inTradingWindow now = (9 * 60 + 30 \<le> fst now * 60 + snd now \<and> fst now * 60 + snd now \<le> 17 * 60 + 25)"

text \<open>The configuration that the repository's engine tests start from.\<close>

definition mockConfig :: BotConfiguration where
  "mockConfig = \<lparr> cfgId = ''test-config-id'', cfgUserId = ''test-user-id'', isActive = False,
     contratos = 1, metaLucroDiario = 500, stopLossPontos = 150, maxTradesDia = 3,
     contratoPreferido = ''WIN'', trailingStopAtivo = True, trailingStopPontos = 50 \<rparr>"

text \<open>
  What the storage holds for a trade: the first row with the given id, its stop-loss,
  and, when the row is closed, the exit reason and exit price it records.
\<close>

definition storedTrade :: "World \<Rightarrow> string \<Rightarrow> Trade option" where
  "storedTrade w tid = find (\<lambda>t. tradeId t = tid) (tradesTable w)"

definition storedStopLoss :: "World \<Rightarrow> string \<Rightarrow> real option" where
  "storedStopLoss w tid = map_option pontosStopLoss (storedTrade w tid)"

definition closedAs :: "World \<Rightarrow> string \<Rightarrow> (string option \<times> jsnum option) option" where
  "closedAs w tid =
     (case storedTrade w tid of
        None \<Rightarrow> None
      | Some r \<Rightarrow> if status r = ''FECHADO'' then Some (motivoSaida r, pontosSaida r) else None)"

definition mockTradeLong :: Trade where
  "mockTradeLong = \<lparr> tradeId = ''trade-1'', tradeUserId = ''test-user'', botConfigId = Some ''test-config-id'',
     contrato = ''WIN'', tipo = ''COMPRA'', pontosEntrada = 112100, pontosSaida = None,
     pontosTakeProfit = Fin 112933, pontosStopLoss = 112000, tradeContratos = 1, valorPorPonto = fl 0.20,
     resultado = Fin 0, motivoSaida = None, status = ''ATIVO'', horarioEntrada = 0,
     horarioSaida = None \<rparr>"

definition mockTradeShort :: Trade where
  "mockTradeShort = \<lparr> tradeId = ''trade-1'', tradeUserId = ''test-user'', botConfigId = Some ''test-config-id'',
     contrato = ''WIN'', tipo = ''VENDA'', pontosEntrada = 112350, pontosSaida = None,
     pontosTakeProfit = Fin 111517, pontosStopLoss = 112500, tradeContratos = 1, valorPorPonto = fl 0.20,
     resultado = Fin 0, motivoSaida = None, status = ''ATIVO'', horarioEntrada = 0,
     horarioSaida = None \<rparr>"

definition emptyWorld :: World where
  "emptyWorld = \<lparr> activeBots = Map.empty, intervalHandles = Map.empty, timers = Map.empty,
     nextHandle = 0, botConfigurations = [mockConfig], tradesTable = [], botLogs = [],
     emitted = [], brokerOrders = [] \<rparr>"

definition worldWith :: "Trade \<Rightarrow> World" where
  "worldWith trade = emptyWorld \<lparr> tradesTable := [trade] \<rparr>"

text \<open>
  A day on which the daily trade limit is reached: the bot of the test user runs
  the test configuration (3 trades a day); two trades of the day are closed and the
  third is an open COMPRA entered at 112100 with its take-profit at 112933; the tick
  reads the price 113000. Times are milliseconds of the same day.
\<close>

definition thirdTrade :: Trade where
  "thirdTrade = \<lparr> tradeId = ''trade-3'', tradeUserId = ''test-user-id'',
     botConfigId = Some ''test-config-id'', contrato = ''WIN'', tipo = ''COMPRA'',
     pontosEntrada = 112100, pontosSaida = None, pontosTakeProfit = Fin 112933,
     pontosStopLoss = 111950, tradeContratos = 1, valorPorPonto = fl 0.20, resultado = Fin 0,
     motivoSaida = None, status = ''ATIVO'', horarioEntrada = 39600000, horarioSaida = None \<rparr>"

definition closedTrade :: "string \<Rightarrow> nat \<Rightarrow> Trade" where
  "closedTrade tid entered = \<lparr> tradeId = tid, tradeUserId = ''test-user-id'',
     botConfigId = Some ''test-config-id'', contrato = ''WIN'', tipo = ''COMPRA'',
     pontosEntrada = 112000, pontosSaida = Some (Fin 111850), pontosTakeProfit = Fin 112833,
     pontosStopLoss = 111850, tradeContratos = 1, valorPorPonto = fl 0.20, resultado = Fin (- 30),
     motivoSaida = Some ''STOP_LOSS'', status = ''FECHADO'', horarioEntrada = entered,
     horarioSaida = Some (entered + 600000) \<rparr>"

definition limitWorld :: World where
  "limitWorld = \<lparr>
     activeBots = [''test-user-id'' \<mapsto> \<lparr> bsIsActive = True, bsUserId = ''test-user-id'',
       configId = ''test-config-id'', currentPosition = Some thirdTrade, dailyTrades = 3,
       dailyProfit = Fin (- 60), lastActivity = 39600000 \<rparr>],
     intervalHandles = [''test-user-id'' \<mapsto> 0],
     timers = [0 \<mapsto> (''test-user-id'', 30000)],
     nextHandle = 1,
     botConfigurations = [mockConfig \<lparr> isActive := True \<rparr>],
     tradesTable = [closedTrade ''trade-1'' 36000000, closedTrade ''trade-2'' 37800000, thirdTrade],
     botLogs = [], emitted = [], brokerOrders = [] \<rparr>"

definition limitTick :: Tick where
  "limitTick = \<lparr> tickNow = 39630000,
     latestMarketData = (\<lambda>s. if s = ''WIN''
        then Some \<lparr> symbol = ''WIN'', close = 113000, timestamp = 39625000 \<rparr> else None),
     latestIndicators = (\<lambda>s tf. None),
     freshTradeId = ''trade-4'' \<rparr>"

text \<open>
  A day on which the daily profit target is reached: one closed trade of the day
  made 600, above the target of 500, and the open COMPRA stands between its
  stop-loss 111950 and its take-profit 112933 when the tick reads the price 112500.
\<close>

definition wonTrade :: Trade where
  "wonTrade = \<lparr> tradeId = ''trade-1'', tradeUserId = ''test-user-id'',
     botConfigId = Some ''test-config-id'', contrato = ''WIN'', tipo = ''COMPRA'',
     pontosEntrada = 112000, pontosSaida = Some (Fin 115000), pontosTakeProfit = Fin 115000,
     pontosStopLoss = 111850, tradeContratos = 1, valorPorPonto = fl 0.20, resultado = Fin 600,
     motivoSaida = Some ''TAKE_PROFIT'', status = ''FECHADO'', horarioEntrada = 36000000,
     horarioSaida = Some 37800000 \<rparr>"

definition targetWorld :: World where
  "targetWorld = limitWorld \<lparr> tradesTable := [wonTrade, thirdTrade] \<rparr>"

definition targetTick :: Tick where
  "targetTick = limitTick \<lparr> latestMarketData := (\<lambda>s. if s = ''WIN''
        then Some \<lparr> symbol = ''WIN'', close = 112500, timestamp = 39625000 \<rparr> else None) \<rparr>"

text \<open>
  Notions for the backtest: the main loop as one step per index of a list of
  indices; a trade was entered at a candle of index 21 or later (its entry time and
  entry price are that candle's); the invariant of the main loop; the first entry
  of a run is at the candle of index 21 (the open position while no trade is
  recorded, the first trade afterwards); the exit a loop step records, if any
  (reason and exit price of the trade it appended); and the state the loop body
  builds when it records an exit.
\<close>

fun backtestOver :: "(nat \<Rightarrow> nat \<times> nat) \<Rightarrow> BotConfiguration \<Rightarrow> MarketData list \<Rightarrow> nat list \<Rightarrow> BacktestState \<Rightarrow> error + BacktestState" where
  "backtestOver clock config md [] st = Inr st"
| "backtestOver clock config md (i # rest) st =
     (case backtestStep (clock i) config md i st of
        Inl e \<Rightarrow> Inl e
      | Inr st' \<Rightarrow> backtestOver clock config md rest st')"

definition enteredAt :: "MarketData list \<Rightarrow> nat \<Rightarrow> real \<Rightarrow> bool" where
  "enteredAt md t p = (\<exists>i \<in> {21..<length md}. t = timestamp (md ! i) \<and> p = close (md ! i))"

definition backtestInv :: "MarketData list \<Rightarrow> BacktestState \<Rightarrow> bool" where
  "backtestInv md st =
     (list_all (\<lambda>t. enteredAt md (btEntryTime t) (btEntryPrice t)) (bt_trades st)
      \<and> (case bt_currentPosition st of
            None \<Rightarrow> True
          | Some pos \<Rightarrow> enteredAt md (entryTime pos) (entryPrice pos)))"

definition firstEntryAt21 :: "MarketData list \<Rightarrow> BacktestState \<Rightarrow> bool" where
  "firstEntryAt21 md st =
     (case bt_trades st of
        [] \<Rightarrow> (case bt_currentPosition st of
                 None \<Rightarrow> False
               | Some pos \<Rightarrow> entryTime pos = timestamp (md ! 21) \<and> entryPrice pos = close (md ! 21))
      | t # ts \<Rightarrow> btEntryTime t = timestamp (md ! 21) \<and> btEntryPrice t = close (md ! 21))"

definition backtestExit :: "BacktestState \<Rightarrow> BacktestState \<Rightarrow> (string \<times> jsnum) option" where
  "backtestExit st st' =
     (if length (bt_trades st') = length (bt_trades st) + 1
      then Some (reason (last (bt_trades st')), exitPrice (last (bt_trades st')))
      else None)"

definition backtestClose :: "BotConfiguration \<Rightarrow> MarketData \<Rightarrow> BacktestPosition \<Rightarrow> jsnum \<Rightarrow> string \<Rightarrow> BacktestState \<Rightarrow> BacktestState" where
  "backtestClose config current pos ep rsn st =
     (let pg = (if posDirection pos = ''COMPRA'' then dsub ep (Fin (entryPrice pos))
                else dsub (Fin (entryPrice pos)) ep);
          ret = dmul (dmul pg (valorPontoOf (getContractSpec (contratoPreferido config))))
                     (Fin (real_of_int (contratos config)))
      in st \<lparr> bt_totalReturn := dadd (bt_totalReturn st) ret,
              bt_trades := bt_trades st @
                [\<lparr> btEntryTime = entryTime pos, exitTime = timestamp current,
                   btDirection = posDirection pos, btEntryPrice = entryPrice pos,
                   exitPrice = ep, pointsGained = pg, tradeReturn = ret, reason = rsn \<rparr>],
              bt_currentPosition := None \<rparr>)"

text \<open>
  Series for the backtest, with the time stamp of a candle equal to its index, and
  a clock inside the session. The flat series stays at 112000. The sample series
  alternates between 112000 and 112100 up to index 21 and stands at 113100 from
  index 22 on: at index 21 the RSI of the window is inside its band and the
  standard deviation of the last ten closes is 50.
\<close>

definition sessionClock :: "nat \<Rightarrow> nat \<times> nat" where
  "sessionClock i = (10, 0)"

definition flatCandle :: MarketData where
  "flatCandle = \<lparr> symbol = ''WIN'', close = 112000, timestamp = 0 \<rparr>"

definition sampleCandle :: "nat \<Rightarrow> MarketData" where
  "sampleCandle k = \<lparr> symbol = ''WIN'',
     close = (if 22 \<le> k then 113100 else if even k then 112000 else 112100),
     timestamp = k \<rparr>"

definition sampleSeries :: "MarketData list" where
  "sampleSeries = map sampleCandle [0..<50]"

definition openLong :: BacktestState where
  "openLong = \<lparr> bt_currentPosition = Some \<lparr> entryPrice = 111900, entryTime = 0,
       posDirection = ''COMPRA'', takeProfit = Fin 111950, stopLoss = Fin 111750 \<rparr>,
     bt_trades = [], bt_totalReturn = Fin 0 \<rparr>"

section \<open>Properties of the rounding\<close>

lemma rhe_unique: "\<bar>q - of_int n\<bar> < 1 / 2 \<Longrightarrow> rhe q = n"
proof -
  assume a: "\<bar>q - of_int n\<bar> < 1 / 2"
  show ?thesis
  proof (cases "of_int n \<le> q")
    case True
    then have "\<lfloor>q\<rfloor> = n" using a by linarith
    then show ?thesis using a True by (simp add: rhe_def)
  next
    case False
    then have f: "\<lfloor>q\<rfloor> = n - 1" using a by linarith
    have "\<not> q - of_int (n - 1) < 1 / 2" "q - of_int (n - 1) > 1 / 2"
      using a False by simp_all
    then show ?thesis unfolding rhe_def Let_def f by simp
  qed
qed

lemma rhe_int [simp]: "rhe (of_int n) = n"
  by (rule rhe_unique) simp

lemma rhe_cases: "rhe q = \<lfloor>q\<rfloor> \<or> rhe q = \<lfloor>q\<rfloor> + 1"
  by (simp add: rhe_def Let_def)

lemma rhe_ge: "of_int m \<le> q \<Longrightarrow> m \<le> rhe q"
proof -
  assume "of_int m \<le> q"
  then have "m \<le> \<lfloor>q\<rfloor>" by linarith
  then show ?thesis using rhe_cases [of q] by linarith
qed

lemma rhe_le: "q \<le> of_int m \<Longrightarrow> rhe q \<le> m"
proof -
  assume a: "q \<le> of_int m"
  have f: "\<lfloor>q\<rfloor> \<le> m" using a by linarith
  show ?thesis
  proof (cases "\<lfloor>q\<rfloor> = m")
    case True
    then have "q = of_int m" using a by linarith
    then show ?thesis by simp
  next
    case False
    then have "\<lfloor>q\<rfloor> + 1 \<le> m" using f by linarith
    then show ?thesis using rhe_cases [of q] by linarith
  qed
qed

lemma expo_eq:
  assumes "2 powr of_int e \<le> \<bar>x\<bar>" and "\<bar>x\<bar> < 2 powr of_int (e + 1)" and "- 1022 \<le> e"
  shows "expo x = e"
proof -
  have "0 < \<bar>x\<bar>"
    using assms(1) by (smt (verit) powr_gt_zero)
  then have "\<lfloor>log 2 \<bar>x\<bar>\<rfloor> = e"
    using assms(1,2) floor_log_eq_powr_iff [of "\<bar>x\<bar>" 2 e] by simp
  then show ?thesis
    using assms(3) by (simp add: expo_def)
qed

lemma fl_eval:
  assumes "2 powr of_int e \<le> \<bar>x\<bar>" and "\<bar>x\<bar> < 2 powr of_int (e + 1)" and "- 1022 \<le> e"
    and "u = 2 powr of_int (e - 52)" and "\<bar>x / u - of_int n\<bar> < 1 / 2"
  shows "fl x = of_int n * u"
proof -
  have "x \<noteq> 0"
    using assms(1) by (smt (verit) powr_gt_zero)
  then show ?thesis
    using expo_eq [OF assms(1-3)] rhe_unique [OF assms(5)] assms(4) by (simp add: fl_def)
qed

lemma abs_lt_powr_expo: "x \<noteq> 0 \<Longrightarrow> \<bar>x\<bar> < 2 powr of_int (expo x + 1)"
proof -
  assume "x \<noteq> 0"
  then have p: "0 < \<bar>x\<bar>" by simp
  have "\<bar>x\<bar> < 2 powr of_int (\<lfloor>log 2 \<bar>x\<bar>\<rfloor> + 1)"
    using floor_log_eq_powr_iff [of "\<bar>x\<bar>" 2 "\<lfloor>log 2 \<bar>x\<bar>\<rfloor>"] p by simp
  also have "\<dots> \<le> 2 powr of_int (expo x + 1)"
    by (simp add: expo_def)
  finally show ?thesis .
qed

lemma two_powr_nat: "0 \<le> j \<Longrightarrow> (2::real) powr of_int j = of_int (2 ^ nat j)"
  by (simp add: powr_real_of_int)

lemma ulp_mult:
  assumes "e - 52 \<le> j"
  shows "real_of_int (2 ^ nat (j - e + 52)) * 2 powr of_int (e - 52) = 2 powr of_int j"
proof -
  have "real_of_int (2 ^ nat (j - e + 52)) = 2 powr of_int (j - e + 52)"
    using two_powr_nat [of "j - e + 52"] assms by simp
  then have "real_of_int (2 ^ nat (j - e + 52)) * 2 powr of_int (e - 52)
             = 2 powr (of_int (j - e + 52) + of_int (e - 52))"
    by (simp only: powr_add)
  also have "of_int (j - e + 52) + of_int (e - 52) = (of_int j :: real)"
    by simp
  finally show ?thesis .
qed

lemma fl_abs_bound:
  assumes "\<bar>x\<bar> \<le> 2 powr of_int j" and "e = expo x" and "e \<le> j"
  shows "\<bar>fl x\<bar> \<le> 2 powr of_int j"
proof (cases "x = 0")
  case True
  then show ?thesis by (simp add: fl_def)
next
  case False
  define u :: real where "u = 2 powr of_int (e - 52)"
  define m :: int where "m = 2 ^ nat (j - e + 52)"
  have u: "0 < u" by (simp add: u_def)
  have mu: "real_of_int m * u = 2 powr of_int j"
    unfolding m_def u_def using ulp_mult [of e j] assms(3) by simp
  have "\<bar>x\<bar> \<le> real_of_int m * u"
    using assms(1) mu by simp
  then have q: "\<bar>x / u\<bar> \<le> real_of_int m"
    using u by (simp add: pos_divide_le_eq)
  have "rhe (x / u) \<le> m"
    using q by (intro rhe_le) linarith
  moreover have "- m \<le> rhe (x / u)"
  proof (rule rhe_ge)
    have "- real_of_int m \<le> x / u"
      using q by linarith
    then show "real_of_int (- m) \<le> x / u"
      by simp
  qed
  ultimately have "\<bar>rhe (x / u)\<bar> \<le> m"
    by linarith
  then have "real_of_int \<bar>rhe (x / u)\<bar> \<le> real_of_int m"
    by (simp only: of_int_le_iff)
  then have "\<bar>real_of_int (rhe (x / u))\<bar> * u \<le> real_of_int m * u"
    using u by (simp add: mult_right_mono)
  moreover have "\<bar>fl x\<bar> = \<bar>real_of_int (rhe (x / u))\<bar> * u"
    using False assms(2) u by (simp add: fl_def abs_mult u_def)
  ultimately show ?thesis
    using mu by simp
qed

lemma fl_abs_le:
  assumes "- 1022 \<le> k" and "\<bar>x\<bar> \<le> 2 powr of_int k"
  shows "\<bar>fl x\<bar> \<le> 2 powr of_int k"
proof (cases "x = 0")
  case True
  then show ?thesis by (simp add: fl_def)
next
  case False
  then have p: "0 < \<bar>x\<bar>" by simp
  have "2 powr of_int \<lfloor>log 2 \<bar>x\<bar>\<rfloor> \<le> \<bar>x\<bar>"
    using floor_log_eq_powr_iff [of "\<bar>x\<bar>" 2 "\<lfloor>log 2 \<bar>x\<bar>\<rfloor>"] p by simp
  then have "(2::real) powr of_int \<lfloor>log 2 \<bar>x\<bar>\<rfloor> \<le> 2 powr of_int k"
    using assms(2) by linarith
  then have "\<lfloor>log 2 \<bar>x\<bar>\<rfloor> \<le> k"
    by simp
  then have ek: "expo x \<le> k"
    using assms(1) by (simp add: expo_def)
  show ?thesis
    by (rule fl_abs_bound [OF assms(2) refl ek])
qed

lemma fl_ge:
  assumes "- 1022 \<le> k" and "2 powr of_int k \<le> x"
  shows "2 powr of_int k \<le> fl x"
proof -
  have "0 < (2::real) powr of_int k" by simp
  then have p: "0 < x"
    using assms(2) by linarith
  define e where "e = \<lfloor>log 2 \<bar>x\<bar>\<rfloor>"
  have b: "2 powr of_int e \<le> \<bar>x\<bar>" "\<bar>x\<bar> < 2 powr of_int (e + 1)"
    using floor_log_eq_powr_iff [of "\<bar>x\<bar>" 2 e] p unfolding e_def by simp_all
  have "(2::real) powr of_int k < 2 powr of_int (e + 1)"
    using assms(2) b(2) p by linarith
  then have "real_of_int k < real_of_int (e + 1)"
    by (simp only: powr_less_cancel_iff)
  then have ke: "k \<le> e" by linarith
  then have ex: "expo x = e"
    using assms(1) by (simp add: expo_def e_def)
  define u :: real where "u = 2 powr of_int (e - 52)"
  have u: "0 < u" by (simp add: u_def)
  have mu: "real_of_int (2 ^ 52) * u = 2 powr of_int e"
    unfolding u_def using ulp_mult [of e e] by simp
  have "real_of_int (2 ^ 52) * u \<le> x"
    using b(1) p mu by simp
  then have "real_of_int (2 ^ 52) \<le> x / u"
    using u by (simp add: pos_le_divide_eq)
  then have "2 ^ 52 \<le> rhe (x / u)"
    by (rule rhe_ge)
  then have "real_of_int (2 ^ 52) \<le> real_of_int (rhe (x / u))"
    by (simp only: of_int_le_iff)
  then have "real_of_int (2 ^ 52) * u \<le> real_of_int (rhe (x / u)) * u"
    using u by (simp add: mult_right_mono)
  moreover have "fl x = real_of_int (rhe (x / u)) * u"
    using p ex by (simp add: fl_def u_def)
  moreover have "(2::real) powr of_int k \<le> 2 powr of_int e"
    using ke by simp
  ultimately show ?thesis
    using mu by linarith
qed

lemma fl_int:
  assumes "\<bar>n\<bar> < 2 ^ 53"
  shows "fl (of_int n) = of_int n"
proof (cases "n = 0")
  case True
  then show ?thesis by (simp add: fl_def)
next
  case False
  define x where "x = real_of_int n"
  define e where "e = \<lfloor>log 2 \<bar>x\<bar>\<rfloor>"
  have p: "0 < \<bar>x\<bar>" using False by (simp add: x_def)
  have b: "2 powr of_int e \<le> \<bar>x\<bar>" "\<bar>x\<bar> < 2 powr of_int (e + 1)"
    using floor_log_eq_powr_iff [of "\<bar>x\<bar>" 2 e] p unfolding e_def by simp_all
  have "1 \<le> \<bar>n\<bar>" using False by simp
  then have "real_of_int 1 \<le> real_of_int \<bar>n\<bar>"
    by (simp only: of_int_le_iff)
  then have "1 \<le> \<bar>x\<bar>" by (simp add: x_def)
  then have "(2::real) powr of_int 0 < 2 powr of_int (e + 1)"
    using b(2) by simp
  then have "real_of_int 0 < real_of_int (e + 1)"
    by (simp only: powr_less_cancel_iff)
  then have e0: "0 \<le> e" by linarith
  have "real_of_int \<bar>n\<bar> < real_of_int (2 ^ 53)"
    using assms by (simp only: of_int_less_iff)
  moreover have "(2::real) powr of_int 53 = real_of_int (2 ^ 53)"
    using two_powr_nat [of 53] by simp
  ultimately have "\<bar>x\<bar> < 2 powr of_int 53"
    by (simp add: x_def)
  then have "(2::real) powr of_int e < 2 powr of_int 53"
    using b(1) by linarith
  then have "real_of_int e < real_of_int 53"
    by (simp only: powr_less_cancel_iff)
  then have e52: "e \<le> 52" by linarith
  have ex: "expo x = e"
    using e0 by (simp add: expo_def e_def)
  define u :: real where "u = 2 powr of_int (e - 52)"
  define m :: int where "m = 2 ^ nat (52 - e)"
  have u: "0 < u" by (simp add: u_def)
  have mu: "real_of_int m * u = 1"
    unfolding u_def m_def using ulp_mult [of e 0] e52 by simp
  have "x = real_of_int (n * m) * u"
    using mu by (simp add: x_def mult.assoc)
  then have "x / u = real_of_int (n * m)"
    using u by simp
  then have "rhe (x / u) = n * m"
    by (simp only: rhe_int)
  then have "fl x = real_of_int (n * m) * u"
    using p ex by (simp add: fl_def u_def)
  then show ?thesis
    using mu by (simp add: x_def mult.assoc)
qed

lemma fl_numeral [simp]: "(numeral w :: int) < 2 ^ 53 \<Longrightarrow> fl (numeral w) = numeral w"
  using fl_int [of "numeral w"] by simp

lemma fl_0 [simp]: "fl 0 = 0"
  by (simp add: fl_def)

lemma two_powr_neg_nat: "(2::real) powr of_int (- int n) = 1 / 2 ^ n"
  by (simp add: powr_minus powr_realpow inverse_eq_divide)

lemma two_powr_int_nat: "(2::real) powr of_int (int n) = 2 ^ n"
  by (simp add: powr_realpow)

lemma fl_abs_le_pow:
  assumes "\<bar>x\<bar> \<le> 2 ^ n"
  shows "\<bar>fl x\<bar> \<le> 2 ^ n"
  using fl_abs_le [of "int n" x] assms by (simp add: powr_realpow)

lemma fl_ge_inv_pow:
  assumes "1 / 2 ^ n \<le> x" and "n \<le> 1022"
  shows "1 / 2 ^ n \<le> fl x"
  using fl_ge [of "- int n" x] assms by (simp add: powr_minus powr_realpow inverse_eq_divide)

lemma jfl_Fin_pow:
  assumes "\<bar>x\<bar> \<le> 2 ^ n" and "n \<le> 1023"
  shows "jfl x = Fin (fl x)"
proof -
  have "\<bar>fl x\<bar> \<le> 2 ^ n"
    using assms(1) by (rule fl_abs_le_pow)
  also have "(2::real) ^ n < 2 ^ 1024"
  proof (rule power_strict_increasing)
    show "n < 1024" using assms(2) by simp
    show "(1::real) < 2" by simp
  qed
  finally show ?thesis
    by (simp add: jfl_def)
qed

lemma jfl_numeral [simp]: "(numeral w :: int) < 2 ^ 53 \<Longrightarrow> jfl (numeral w) = Fin (numeral w)"
proof -
  assume a: "(numeral w :: int) < 2 ^ 53"
  then have "real_of_int (numeral w) < real_of_int (2 ^ 53)"
    by (simp only: of_int_less_iff)
  then have "\<bar>numeral w :: real\<bar> \<le> 2 ^ 53"
    by simp
  then have "jfl (numeral w) = Fin (fl (numeral w))"
    by (rule jfl_Fin_pow) simp
  then show ?thesis
    using a by simp
qed

lemma jfl_0 [simp]: "jfl 0 = Fin 0"
  by (simp add: jfl_def)

lemma rhe_tie:
  assumes "\<bar>q - of_int n\<bar> = 1 / 2" and "even n"
  shows "rhe q = n"
proof (cases "of_int n \<le> q")
  case True
  then have q: "q = of_int n + 1 / 2"
    using assms(1) by linarith
  have "\<lfloor>q\<rfloor> = n"
    unfolding q by (simp add: floor_eq_iff)
  then show ?thesis
    using q assms(2) by (simp add: rhe_def Let_def)
next
  case False
  then have q: "q = of_int (n - 1) + 1 / 2"
    using assms(1) by simp
  have f: "\<lfloor>q\<rfloor> = n - 1"
    unfolding q by (simp only: floor_eq_iff) simp
  have "odd (n - 1)"
    using assms(2) by simp
  then show ?thesis
    using q f by (simp add: rhe_def Let_def)
qed

lemma fl_tie:
  assumes "2 powr of_int e \<le> \<bar>x\<bar>" and "\<bar>x\<bar> < 2 powr of_int (e + 1)" and "- 1022 \<le> e"
    and "u = 2 powr of_int (e - 52)" and "\<bar>x / u - of_int n\<bar> = 1 / 2" and "even n"
  shows "fl x = of_int n * u"
proof -
  have "x \<noteq> 0"
    using assms(1) by (smt (verit) powr_gt_zero)
  then show ?thesis
    using expo_eq [OF assms(1-3)] rhe_tie [OF assms(5,6)] assms(4) by (simp add: fl_def)
qed

lemma jfl_of_fl:
  assumes "fl x = v" and "\<bar>v\<bar> \<le> 2 ^ 60"
  shows "jfl x = Fin v"
proof -
  have "(2::real) ^ 60 < 2 ^ 1024"
    by (rule power_strict_increasing) simp_all
  then have "\<bar>fl x\<bar> < 2 ^ 1024"
    using assms by linarith
  then show ?thesis
    using assms(1) by (simp add: jfl_def)
qed

lemma jfl_eval:
  assumes "2 powr of_int e \<le> \<bar>x\<bar>" and "\<bar>x\<bar> < 2 powr of_int (e + 1)" and "- 1022 \<le> e"
    and "u = 2 powr of_int (e - 52)" and "\<bar>x / u - of_int n\<bar> < 1 / 2"
    and "\<bar>of_int n * u\<bar> \<le> 2 ^ 60"
  shows "jfl x = Fin (of_int n * u)"
  using fl_eval [OF assms(1-5)] assms(6) by (rule jfl_of_fl)

lemma jfl_tie:
  assumes "2 powr of_int e \<le> \<bar>x\<bar>" and "\<bar>x\<bar> < 2 powr of_int (e + 1)" and "- 1022 \<le> e"
    and "u = 2 powr of_int (e - 52)" and "\<bar>x / u - of_int n\<bar> = 1 / 2" and "even n"
    and "\<bar>of_int n * u\<bar> \<le> 2 ^ 60"
  shows "jfl x = Fin (of_int n * u)"
  using fl_tie [OF assms(1-6)] assms(7) by (rule jfl_of_fl)

section \<open>Properties of the entry evaluation\<close>

lemma jle_Fin [simp]: "jle (Fin x) (Fin y) = (x \<le> y)"
  by (auto simp: jle_def)

lemma jge_Fin [simp]: "jge (Fin x) (Fin y) = (y \<le> x)"
  by (simp add: jge_def)

lemma jgt_Fin [simp]: "jgt (Fin x) (Fin y) = (y < x)"
  by (simp add: jgt_def)

lemma window_minutes:
  assumes "snd now < 60"
  shows "((fst now = 9 \<and> snd now \<ge> 30) \<or> (fst now \<ge> 10 \<and> fst now < 17) \<or>
          (fst now = 17 \<and> snd now \<le> 25)) = inTradingWindow now"
  using assms unfolding inTradingWindow_def by auto

lemma score_sum:
  "score (calculateEntryScore now md ind) =
     rsiPoints (rsi ind)
     + (if jgt (ema9 ind) (ema21 ind) then 20 else 15)
     + (if jgt (macd ind) (macdSignal ind) then 15 else 0)
     + (if jge (volatilidade ind) (Fin 20) \<and> jle (volatilidade ind) (Fin 200) then 20 else 0)
     + (if (fst now = 9 \<and> snd now \<ge> 30) \<or> (fst now \<ge> 10 \<and> fst now < 17) \<or>
           (fst now = 17 \<and> snd now \<le> 25) then 25 else 0)"
  unfolding calculateEntryScore_def rsiPoints_def Let_def split_def
  by simp

lemma rsiPoints_bounds: "0 \<le> rsiPoints r \<and> rsiPoints r \<le> 20"
  by (simp add: rsiPoints_def)

lemma shouldEnter_threshold:
  "shouldEnter (calculateEntryScore now md ind) = (60 \<le> score (calculateEntryScore now md ind))"
  unfolding calculateEntryScore_def Let_def split_def
  by simp

lemma direction_trend:
  "direction (calculateEntryScore now md ind) =
     (if jgt (ema9 ind) (ema21 ind) then ''COMPRA'' else ''VENDA'')"
  unfolding calculateEntryScore_def Let_def split_def
  by simp

text \<open>
  C1. The decision is \<open>shouldEnter = (score \<ge> 60)\<close>, where the score is the sum of
  the RSI band points (20 in [30,70], else 15 below 35, else 10 above 65), the trend
  points (20 when EMA9 > EMA21, else 15), 15 when the MACD line is above its signal,
  20 when the volatility is in [20,200] and 25 when the clock is inside 09:30-17:25;
  the sum never exceeds 100.
\<close>

theorem entry_score_decision:
  assumes "snd now < 60"
  shows "shouldEnter (calculateEntryScore now md ind) = (60 \<le> score (calculateEntryScore now md ind))
       \<and> score (calculateEntryScore now md ind) =
           rsiPoints (rsi ind)
           + (if jgt (ema9 ind) (ema21 ind) then 20 else 15)
           + (if jgt (macd ind) (macdSignal ind) then 15 else 0)
           + (if jge (volatilidade ind) (Fin 20) \<and> jle (volatilidade ind) (Fin 200) then 20 else 0)
           + (if inTradingWindow now then 25 else 0)
       \<and> score (calculateEntryScore now md ind) \<le> 100"
proof -
  have s: "score (calculateEntryScore now md ind) =
           rsiPoints (rsi ind)
           + (if jgt (ema9 ind) (ema21 ind) then 20 else 15)
           + (if jgt (macd ind) (macdSignal ind) then 15 else 0)
           + (if jge (volatilidade ind) (Fin 20) \<and> jle (volatilidade ind) (Fin 200) then 20 else 0)
           + (if inTradingWindow now then 25 else 0)"
    using score_sum [of now md ind] window_minutes [OF assms] by simp
  have "rsiPoints (rsi ind) \<le> 20"
    using rsiPoints_bounds by blast
  then have le: "score (calculateEntryScore now md ind) \<le> 100"
    unfolding s by (simp split: if_splits)
  show ?thesis
    using shouldEnter_threshold [of now md ind] s le by blast
qed

theorem entry_score_decision_witness:
  "snd (10::nat, 0::nat) < 60
   \<and> shouldEnter (calculateEntryScore (10, 0) ()
         \<lparr> rsi = Fin 55, ema9 = Fin 112500, ema21 = Fin 112400, macd = Fin 0.15,
           macdSignal = Fin 0.10, volatilidade = Fin 100 \<rparr>)
   \<and> score (calculateEntryScore (10, 0) ()
         \<lparr> rsi = Fin 55, ema9 = Fin 112500, ema21 = Fin 112400, macd = Fin 0.15,
           macdSignal = Fin 0.10, volatilidade = Fin 100 \<rparr>) = 100"
  using entry_score_decision [of "(10, 0)" "()"
         "\<lparr> rsi = Fin 55, ema9 = Fin 112500, ema21 = Fin 112400, macd = Fin 0.15,
           macdSignal = Fin 0.10, volatilidade = Fin 100 \<rparr>"]
  by (simp add: rsiPoints_def inTradingWindow_def)

text \<open>
  C2. The direction depends on the comparison EMA9 > EMA21 alone: two evaluations
  whose indicator sets agree on EMA9 and EMA21 return the same direction whatever
  the RSI, MACD, volatility, market data and clock are, and the direction is COMPRA
  exactly when EMA9 > EMA21 and VENDA otherwise.
\<close>

theorem direction_depends_on_trend_only:
  assumes "ema9 ind1 = ema9 ind2" and "ema21 ind1 = ema21 ind2"
  shows "direction (calculateEntryScore now1 md1 ind1) = direction (calculateEntryScore now2 md2 ind2)
       \<and> (direction (calculateEntryScore now1 md1 ind1) = ''COMPRA'') = jgt (ema9 ind1) (ema21 ind1)
       \<and> (direction (calculateEntryScore now1 md1 ind1) = ''VENDA'') = (\<not> jgt (ema9 ind1) (ema21 ind1))"
  using assms by (simp add: direction_trend)

theorem direction_depends_on_trend_only_witness:
  "direction (calculateEntryScore (10, 0) ()
      \<lparr> rsi = Fin 20, ema9 = Fin 112400, ema21 = Fin 112500, macd = Fin 1,
        macdSignal = Fin 0, volatilidade = Fin 100 \<rparr>)
   = direction (calculateEntryScore (3, 15) ()
      \<lparr> rsi = Fin 85, ema9 = Fin 112400, ema21 = Fin 112500, macd = Fin 0,
        macdSignal = Fin 1, volatilidade = Fin 500 \<rparr>)
   \<and> direction (calculateEntryScore (10, 0) ()
      \<lparr> rsi = Fin 20, ema9 = Fin 112400, ema21 = Fin 112500, macd = Fin 1,
        macdSignal = Fin 0, volatilidade = Fin 100 \<rparr>) = ''VENDA''"
  using direction_depends_on_trend_only [of
      "\<lparr> rsi = Fin 20, ema9 = Fin 112400, ema21 = Fin 112500, macd = Fin 1,
        macdSignal = Fin 0, volatilidade = Fin 100 \<rparr>"
      "\<lparr> rsi = Fin 85, ema9 = Fin 112400, ema21 = Fin 112500, macd = Fin 0,
        macdSignal = Fin 1, volatilidade = Fin 500 \<rparr>"
      "(10, 0)" "()" "(3, 15)" "()"]
  by auto

text \<open>
  C10. Whatever the market data, the indicators and the clock are, the score lies
  between 15 and 100: the trend block always adds at least 15, the other blocks add
  nothing negative, and the weights sum to 100.
\<close>

theorem entry_score_range:
  "15 \<le> score (calculateEntryScore now md ind) \<and> score (calculateEntryScore now md ind) \<le> 100"
proof -
  have "0 \<le> rsiPoints (rsi ind)" and "rsiPoints (rsi ind) \<le> 20"
    using rsiPoints_bounds by blast+
  then show ?thesis
    unfolding score_sum by (simp split: if_splits)
qed

theorem entry_score_range_witness:
  "score (calculateEntryScore (3, 0) ()
      \<lparr> rsi = NaN, ema9 = Fin 1, ema21 = Fin 2, macd = Fin 0, macdSignal = Fin 0,
        volatilidade = Fin 0 \<rparr>) = 15"
proof -
  have "score (calculateEntryScore (3, 0) ()
      \<lparr> rsi = NaN, ema9 = Fin 1, ema21 = Fin 2, macd = Fin 0, macdSignal = Fin 0,
        volatilidade = Fin 0 \<rparr>) \<le> 15"
    by (simp add: score_sum rsiPoints_def jge_def jle_def jgt_def)
  then show ?thesis
    using entry_score_range [of "(3, 0)" "()"
      "\<lparr> rsi = NaN, ema9 = Fin 1, ema21 = Fin 2, macd = Fin 0, macdSignal = Fin 0,
        volatilidade = Fin 0 \<rparr>"]
    by linarith
qed

text \<open>
  The rejection case of the engine tests: an overbought RSI, a falling trend, no
  momentum and a volatility outside the band stay below the threshold at any time.
\<close>

lemma entry_score_rejects_overbought:
  "score (calculateEntryScore now ()
      \<lparr> rsi = Fin 85, ema9 = Fin 112400, ema21 = Fin 112500, macd = Fin (- 0.15),
        macdSignal = Fin (- 0.10), volatilidade = Fin 500 \<rparr>) < 60
   \<and> \<not> shouldEnter (calculateEntryScore now ()
      \<lparr> rsi = Fin 85, ema9 = Fin 112400, ema21 = Fin 112500, macd = Fin (- 0.15),
        macdSignal = Fin (- 0.10), volatilidade = Fin 500 \<rparr>)"
  by (simp add: shouldEnter_threshold score_sum rsiPoints_def)

section \<open>Properties of the RSI implementations\<close>

lemma rsiLoop_nonneg:
  "0 \<le> fst acc \<Longrightarrow> 0 \<le> snd acc \<Longrightarrow>
   0 \<le> fst (rsiLoop prices i stop acc) \<and> 0 \<le> snd (rsiLoop prices i stop acc)"
proof (induction prices i stop acc rule: rsiLoop.induct)
  case (1 prices i stop gains losses)
  show ?case
  proof (cases "i < stop")
    case True
    then show ?thesis
      using 1 by (subst (1 2) rsiLoop.simps) (simp split: if_splits)
  next
    case False
    then show ?thesis
      using 1 by (subst (1 2) rsiLoop.simps) simp
  qed
qed

lemma rsi_quotient:
  assumes "0 \<le> g" and "0 < l" and "0 < p"
  shows "jsub (Fin 100) (jdiv (Fin 100) (jadd (Fin 1) (jdiv (jdiv (Fin g) (Fin p)) (jdiv (Fin l) (Fin p)))))
         = Fin (100 - 100 / (1 + g / l))"
proof -
  have "1 + g / l \<noteq> 0"
    using assms by (smt (verit) divide_nonneg_pos)
  then show ?thesis
    using assms by (simp add: jsub_def)
qed

lemma rsi_quotient_range:
  assumes "0 \<le> g" and "0 < (l::real)"
  shows "0 \<le> 100 - 100 / (1 + g / l) \<and> 100 - 100 / (1 + g / l) \<le> 100"
proof -
  have "1 \<le> 1 + g / l"
    using assms by simp
  then have "100 / (1 + g / l) \<le> 100" and "0 \<le> 100 / (1 + g / l)"
    by (simp_all add: divide_le_eq)
  then show ?thesis
    by simp
qed

lemma rsi_no_loss:
  assumes "0 < g" and "0 < p"
  shows "jsub (Fin 100) (jdiv (Fin 100) (jadd (Fin 1) (jdiv (jdiv (Fin g) (Fin p)) (jdiv (Fin 0) (Fin p)))))
         = Fin 100"
  using assms by (simp add: jsub_def jinf_def)

lemma rsi_flat:
  assumes "0 < p"
  shows "jsub (Fin 100) (jdiv (Fin 100) (jadd (Fin 1) (jdiv (jdiv (Fin 0) (Fin p)) (jdiv (Fin 0) (Fin p)))))
         = NaN"
  using assms by (simp add: jsub_def jinf_def)

lemma MarketDataService_rsi_short:
  "length prices < period + 1 \<Longrightarrow> MarketDataService_calculateRSI prices period = Fin 50"
  by (simp add: MarketDataService_calculateRSI_def)

lemma TradingEngine_rsi_short:
  "length prices < period + 1 \<Longrightarrow> TradingEngine_calculateRSI prices period = Fin 50"
  by (simp add: TradingEngine_calculateRSI_def)

lemma MarketDataService_rsi_range:
  assumes "1 \<le> period" and "period + 1 \<le> length prices"
  shows "\<exists>r. MarketDataService_calculateRSI prices period = Fin r \<and> 0 \<le> r \<and> r \<le> 100"
proof -
  obtain g l where gl: "rsiLoop prices (length prices - period) (length prices) (0, 0) = (g, l)"
    by (cases "rsiLoop prices (length prices - period) (length prices) (0, 0)")
  have nn: "0 \<le> g \<and> 0 \<le> l"
    using rsiLoop_nonneg [of "(0, 0)" prices "length prices - period" "length prices"] gl by simp
  have p: "0 < real period"
    using assms(1) by simp
  show ?thesis
  proof (cases "l = 0")
    case True
    then have "MarketDataService_calculateRSI prices period = Fin 100"
      using assms p gl by (simp add: MarketDataService_calculateRSI_def Let_def)
    then show ?thesis by simp
  next
    case False
    then have l: "0 < l" using nn by simp
    have "MarketDataService_calculateRSI prices period = Fin (100 - 100 / (1 + g / l))"
      using assms p gl l rsi_quotient [of g l "real period"] nn
      by (simp add: MarketDataService_calculateRSI_def Let_def)
    then show ?thesis
      using rsi_quotient_range [of g l] nn l by simp
  qed
qed

lemma MarketDataService_rsi_no_loss:
  assumes "1 \<le> period" and "period + 1 \<le> length prices"
    and "snd (rsiLoop prices (length prices - period) (length prices) (0, 0)) = 0"
  shows "MarketDataService_calculateRSI prices period = Fin 100"
  using assms by (simp add: MarketDataService_calculateRSI_def Let_def)

lemma TradingEngine_rsi_cases:
  assumes "1 \<le> period" and "period + 1 \<le> length prices"
    and "rsiLoop prices 1 (period + 1) (0, 0) = (g, l)"
  shows "TradingEngine_calculateRSI prices period =
           (if 0 < l then Fin (100 - 100 / (1 + g / l))
            else if 0 < g then Fin 100 else NaN)"
proof -
  have nn: "0 \<le> g \<and> 0 \<le> l"
    using rsiLoop_nonneg [of "(0, 0)" prices 1 "period + 1"] assms(3) by simp
  have p: "0 < real period"
    using assms(1) by simp
  have te: "TradingEngine_calculateRSI prices period =
      jsub (Fin 100) (jdiv (Fin 100) (jadd (Fin 1)
        (jdiv (jdiv (Fin g) (Fin (real period))) (jdiv (Fin l) (Fin (real period))))))"
    using assms by (simp add: TradingEngine_calculateRSI_def Let_def)
  show ?thesis
  proof (cases "0 < l")
    case True
    then show ?thesis
      unfolding te using rsi_quotient [of g l "real period"] nn p by simp
  next
    case False
    then have l0: "l = 0" using nn by simp
    show ?thesis
    proof (cases "0 < g")
      case True
      then show ?thesis
        unfolding te l0 using rsi_no_loss [of g "real period"] p by simp
    next
      case False
      then have "g = 0" using nn by simp
      then show ?thesis
        unfolding te l0 using rsi_flat [of "real period"] p by simp
    qed
  qed
qed

lemma rsi_agree_on_exact_window:
  assumes "1 \<le> period" and "length prices = period + 1"
    and "rsiLoop prices 1 (period + 1) (0, 0) \<noteq> (0, 0)"
  shows "TradingEngine_calculateRSI prices period = MarketDataService_calculateRSI prices period"
proof -
  obtain g l where gl: "rsiLoop prices 1 (period + 1) (0, 0) = (g, l)"
    by (cases "rsiLoop prices 1 (period + 1) (0, 0)")
  have nn: "0 \<le> g \<and> 0 \<le> l"
    using rsiLoop_nonneg [of "(0, 0)" prices 1 "period + 1"] gl by simp
  have p: "0 < real period"
    using assms(1) by simp
  have te: "TradingEngine_calculateRSI prices period =
           (if 0 < l then Fin (100 - 100 / (1 + g / l))
            else if 0 < g then Fin 100 else NaN)"
    using TradingEngine_rsi_cases [OF assms(1) _ gl] assms(2) by simp
  have mds: "MarketDataService_calculateRSI prices period =
           (if l = 0 then Fin 100 else Fin (100 - 100 / (1 + g / l)))"
    using assms(2) gl p nn rsi_quotient [of g l "real period"]
    by (simp add: MarketDataService_calculateRSI_def Let_def)
  show ?thesis
    unfolding te mds using nn assms(3) gl by auto
qed

text \<open>
  C8. The claim is that the RSI of the engine lies in [0,100] for every series of
  length at least \<open>period + 1\<close>, and is exactly 100 when the average loss over the
  window is zero. On a flat window of 21 closes (the window the backtest passes,
  with period 9) the sums of gains and of losses over the window are both zero:
  \<^verbatim>\<open>TradingEngine.calculateRSI\<close> divides 0 by 0 and returns NaN, which is neither at
  least 0 nor at most 100, where \<^verbatim>\<open>MarketDataService.calculateRSI\<close> returns 100
  through its guard.
\<close>

theorem TradingEngine_rsi_flat_window:
  "9 + 1 \<le> length (replicate 21 (100::real))
   \<and> snd (rsiLoop (replicate 21 100) 1 (9 + 1) (0, 0)) = 0
   \<and> TradingEngine_calculateRSI (replicate 21 100) 9 = NaN
   \<and> \<not> jge (TradingEngine_calculateRSI (replicate 21 100) 9) (Fin 0)
   \<and> \<not> jle (TradingEngine_calculateRSI (replicate 21 100) 9) (Fin 100)
   \<and> MarketDataService_calculateRSI (replicate 21 100) 9 = Fin 100"
  by (simp add: TradingEngine_calculateRSI_def MarketDataService_calculateRSI_def
      rsiLoop.simps Let_def jinf_def jsub_def jge_def jle_def)

text \<open>
  C9. The claim is that the two RSI implementations return identical results for
  every series and period. On the 21 closes below, with period 9, the backtest
  implementation sums the first nine deltas (one gain of 1, one loss of 1) and
  returns 50, and the live implementation sums the last nine deltas (gains 8,
  losses 1) and returns 800/9.
\<close>

theorem rsi_implementations_differ:
  "TradingEngine_calculateRSI
     [100, 101, 100, 100, 100, 100, 100, 100, 100, 100, 100, 100,
      101, 102, 103, 104, 105, 106, 107, 108, 107] 9 = Fin 50
   \<and> MarketDataService_calculateRSI
     [100, 101, 100, 100, 100, 100, 100, 100, 100, 100, 100, 100,
      101, 102, 103, 104, 105, 106, 107, 108, 107] 9 = Fin (800 / 9)
   \<and> TradingEngine_calculateRSI
     [100, 101, 100, 100, 100, 100, 100, 100, 100, 100, 100, 100,
      101, 102, 103, 104, 105, 106, 107, 108, 107] 9
     \<noteq> MarketDataService_calculateRSI
     [100, 101, 100, 100, 100, 100, 100, 100, 100, 100, 100, 100,
      101, 102, 103, 104, 105, 106, 107, 108, 107] 9"
  by (simp add: TradingEngine_calculateRSI_def MarketDataService_calculateRSI_def
      rsiLoop.simps Let_def jinf_def jsub_def)

section \<open>Properties of the moving average\<close>

text \<open>
  A window of two equal closes. Over 21 periods the multiplier 2 / 22 is rounded,
  and so are its complement, the two products and their sum: the average is one
  unit in the last place below the close. Over 9 periods the complement of the
  multiplier falls halfway between two numbers and goes to the even one, and the
  average is the close. So on this flat window EMA9 is above EMA21.
\<close>

lemma calculateEMA_flat_pair:
  "calculateEMA [Fin 112000, Fin 112000] 21 = Fin (7696581394431999 / 68719476736)"
  "calculateEMA [Fin 112000, Fin 112000] 9 = Fin 112000"
  "jgt (calculateEMA [Fin 112000, Fin 112000] 9) (calculateEMA [Fin 112000, Fin 112000] 21)"
proof -
  have n: "dadd (Fin (real 21)) (Fin 1) = Fin 22" "dadd (Fin (real 9)) (Fin 1) = Fin 10"
    by (simp_all add: dadd_def)
  have m21: "ddiv (Fin 2) (Fin 22) = Fin (3275345183542179 / 36028797018963968)"
  proof -
    have "jfl (2 / 22) = Fin (of_int 6550690367084358 * (1 / 72057594037927936))"
      by (rule jfl_eval [where e = "-4"]) (simp_all add: powr_minus_divide)
    then show ?thesis
      by (simp add: ddiv_def)
  qed
  have o21: "dsub (Fin 1) (Fin (3275345183542179 / 36028797018963968)) = Fin (8188362958855447 / 9007199254740992)"
  proof -
    have "jfl (1 - (3275345183542179 / 36028797018963968)) = Fin (of_int 8188362958855447 * (1 / 9007199254740992))"
      by (rule jfl_eval [where e = "-1"]) (simp_all add: powr_minus_divide)
    then show ?thesis
      by (simp add: dsub_def jsub_def)
  qed
  have a21: "dmul (Fin 112000) (Fin (3275345183542179 / 36028797018963968)) = Fin (5597513741405091 / 549755813888)"
  proof -
    have "jfl (112000 * (3275345183542179 / 36028797018963968)) = Fin (of_int 5597513741405091 * (1 / 549755813888))"
      by (rule jfl_eval [where e = "13"]) (simp_all add: powr_minus_divide)
    then show ?thesis
      by (simp add: dmul_def)
  qed
  have b21: "dmul (Fin 112000) (Fin (8188362958855447 / 9007199254740992)) = Fin (6996892176756363 / 68719476736)"
  proof -
    have "jfl (112000 * (8188362958855447 / 9007199254740992)) = Fin (of_int 6996892176756363 * (1 / 68719476736))"
      by (rule jfl_eval [where e = "16"]) (simp_all add: powr_minus_divide)
    then show ?thesis
      by (simp add: dmul_def)
  qed
  have c21: "dadd (Fin (5597513741405091 / 549755813888)) (Fin (6996892176756363 / 68719476736)) = Fin (7696581394431999 / 68719476736)"
  proof -
    have "jfl ((5597513741405091 / 549755813888) + (6996892176756363 / 68719476736)) = Fin (of_int 7696581394431999 * (1 / 68719476736))"
      by (rule jfl_eval [where e = "16"]) (simp_all add: powr_minus_divide)
    then show ?thesis
      by (simp add: dadd_def)
  qed
  have m9: "ddiv (Fin 2) (Fin 10) = Fin (3602879701896397 / 18014398509481984)"
  proof -
    have "jfl (2 / 10) = Fin (of_int 7205759403792794 * (1 / 36028797018963968))"
      by (rule jfl_eval [where e = "-3"]) (simp_all add: powr_minus_divide)
    then show ?thesis
      by (simp add: ddiv_def)
  qed
  have o9: "dsub (Fin 1) (Fin (3602879701896397 / 18014398509481984)) = Fin (3602879701896397 / 4503599627370496)"
  proof -
    have "jfl (1 - (3602879701896397 / 18014398509481984)) = Fin (of_int 7205759403792794 * (1 / 9007199254740992))"
      by (rule jfl_tie [where e = "-1"]) (simp_all add: powr_minus_divide)
    then show ?thesis
      by (simp add: dsub_def jsub_def)
  qed
  have a9: "dmul (Fin 112000) (Fin (3602879701896397 / 18014398509481984)) = Fin (22400)"
  proof -
    have "jfl (112000 * (3602879701896397 / 18014398509481984)) = Fin (of_int 6157265115545600 * (1 / 274877906944))"
      by (rule jfl_eval [where e = "14"]) (simp_all add: powr_minus_divide)
    then show ?thesis
      by (simp add: dmul_def)
  qed
  have b9: "dmul (Fin 112000) (Fin (3602879701896397 / 4503599627370496)) = Fin (89600)"
  proof -
    have "jfl (112000 * (3602879701896397 / 4503599627370496)) = Fin (of_int 6157265115545600 * (1 / 68719476736))"
      by (rule jfl_eval [where e = "16"]) (simp_all add: powr_minus_divide)
    then show ?thesis
      by (simp add: dmul_def)
  qed
  have c9: "dadd (Fin 22400) (Fin 89600) = Fin (112000)"
  proof -
    have "jfl (22400 + 89600) = Fin (of_int 7696581394432000 * (1 / 68719476736))"
      by (rule jfl_eval [where e = "16"]) (simp_all add: powr_minus_divide)
    then show ?thesis
      by (simp add: dadd_def)
  qed
  show e21: "calculateEMA [Fin 112000, Fin 112000] 21 = Fin (7696581394431999 / 68719476736)"
    by (simp only: calculateEMA_def list.case emaLoop.simps n m21 o21 a21 b21 c21)
  show e9: "calculateEMA [Fin 112000, Fin 112000] 9 = Fin 112000"
    by (simp only: calculateEMA_def list.case emaLoop.simps n m9 o9 a9 b9 c9)
  show "jgt (calculateEMA [Fin 112000, Fin 112000] 9) (calculateEMA [Fin 112000, Fin 112000] 21)"
    unfolding e21 e9 by simp
qed

section \<open>Properties of the target computation\<close>

lemma fl_02: "fl (1 / 5) = 3602879701896397 / 18014398509481984"
proof -
  have "fl (1 / 5) = of_int 7205759403792794 * (1 / 36028797018963968)"
    by (rule fl_eval [where e = "-3"]) (simp_all add: powr_minus_divide)
  then show ?thesis by simp
qed

lemma fl_02_bounds: "1 / 2 ^ 3 \<le> fl 0.2 \<and> fl 0.2 \<le> 1"
  by (simp add: fl_02)

lemma jmax_int: "jmax (Fin 1) (Fin (of_int k)) = Fin (of_int (max 1 k))"
  by (simp add: jmax_def max_def)

lemma valorPonto_cases:
  assumes "valorPontoOf (getContractSpec c) = Fin pv"
  shows "pv = fl 0.2 \<or> pv = 1 / 2"
  using assms by (simp add: valorPontoOf_def getContractSpec_def split: if_splits)

lemma valorPonto_inherited: "valorPontoOf (getContractSpec ''constructor'') = NaN"
  by (simp add: valorPontoOf_def getContractSpec_def objectPrototypeKeys_def)

lemma targetPoints_value:
  assumes "1 \<le> maxTradesDia config" and "1 \<le> contratos config" and "contratos config < 2 ^ 31"
    and "\<bar>metaLucroDiario config\<bar> < 10 ^ 8"
    and "valorPontoOf (getContractSpec (contratoPreferido config)) = Fin pv" and "0 < pv"
  shows "calculateTargetPoints config =
           Fin (of_int (max 1 (round (fl (fl (fl (metaLucroDiario config) / of_int (maxTradesDia config))
                                          / fl (pv * of_int (contratos config)))))))"
proof -
  define meta where "meta = metaLucroDiario config"
  define m where "m = real_of_int (maxTradesDia config)"
  define c where "c = real_of_int (contratos config)"
  have m1: "1 \<le> m" using assms(1) by (simp add: m_def)
  have c1: "1 \<le> c" using assms(2) by (simp add: c_def)
  have "real_of_int (contratos config) < real_of_int (2 ^ 31)"
    using assms(3) by (simp only: of_int_less_iff)
  then have c31: "c \<le> 2 ^ 31" by (simp add: c_def)
  have pv: "1 / 2 ^ 3 \<le> pv \<and> pv \<le> 1"
    using valorPonto_cases [OF assms(5)] fl_02_bounds by auto
  \<comment> \<open>parseFloat of the daily target\<close>
  have meta27: "\<bar>meta\<bar> \<le> 2 ^ 27"
    using assms(4) by (simp add: meta_def)
  have a: "jfl meta = Fin (fl meta)"
    using meta27 by (rule jfl_Fin_pow) simp
  have a27: "\<bar>fl meta\<bar> \<le> 2 ^ 27"
    using meta27 by (rule fl_abs_le_pow)
  \<comment> \<open>targetValue\<close>
  have "\<bar>fl meta / m\<bar> \<le> \<bar>fl meta\<bar>"
    using m1 by (simp add: divide_le_eq mult_le_cancel_left1 abs_ge_zero)
  then have t27: "\<bar>fl meta / m\<bar> \<le> 2 ^ 27"
    using a27 by linarith
  have t: "ddiv (jfl meta) (Fin m) = Fin (fl (fl meta / m))"
    using m1 a jfl_Fin_pow [OF t27] by (simp add: ddiv_def)
  have tb: "\<bar>fl (fl meta / m)\<bar> \<le> 2 ^ 27"
    using t27 by (rule fl_abs_le_pow)
  \<comment> \<open>valuePerPoint\<close>
  have vlo: "1 / 2 ^ 3 \<le> pv * c"
  proof -
    have "pv * 1 \<le> pv * c" using c1 assms(6) by (simp only: mult_le_cancel_left_pos)
    moreover have "1 / 8 \<le> pv" using pv by simp
    ultimately have "1 / 8 \<le> pv * c" by linarith
    then show ?thesis by simp
  qed
  have vhi: "\<bar>pv * c\<bar> \<le> 2 ^ 31"
  proof -
    have "pv * c \<le> 1 * c" using pv c1 by (intro mult_right_mono) simp_all
    moreover have "0 \<le> pv * c" using assms(6) c1 by simp
    ultimately show ?thesis using c31 by simp
  qed
  have v: "dmul (Fin pv) (Fin c) = Fin (fl (pv * c))"
    using jfl_Fin_pow [OF vhi] by (simp add: dmul_def)
  have vb: "1 / 2 ^ 3 \<le> fl (pv * c)"
    using vlo by (rule fl_ge_inv_pow) simp
  then have v0: "fl (pv * c) \<noteq> 0" by simp
  \<comment> \<open>the quotient\<close>
  have "\<bar>fl (fl meta / m) / fl (pv * c)\<bar> = \<bar>fl (fl meta / m)\<bar> / fl (pv * c)"
    using vb by simp
  also have "\<dots> \<le> 2 ^ 27 / (1 / 2 ^ 3)"
    using tb vb by (intro frac_le) simp_all
  finally have q30: "\<bar>fl (fl meta / m) / fl (pv * c)\<bar> \<le> 2 ^ 30"
    by simp
  have q: "ddiv (Fin (fl (fl meta / m))) (Fin (fl (pv * c)))
             = Fin (fl (fl (fl meta / m) / fl (pv * c)))"
    using v0 jfl_Fin_pow [OF q30] by (simp add: ddiv_def)
  have eq: "calculateTargetPoints config =
              Fin (of_int (max 1 (round (fl (fl (fl meta / m) / fl (pv * c))))))"
    unfolding calculateTargetPoints_def Let_def
    using assms(5) t v q by (simp add: meta_def m_def c_def round_def jmax_int)
  show ?thesis
    using eq unfolding meta_def m_def c_def .
qed

lemma targetPoints_833:
  assumes "1 \<le> maxTradesDia config" and "1 \<le> contratos config" and "contratos config < 2 ^ 31"
    and "\<bar>metaLucroDiario config\<bar> < 10 ^ 8"
    and "valorPontoOf (getContractSpec (contratoPreferido config)) = Fin pv" and "0 < pv"
    and h: "metaLucroDiario config = 500 \<and> maxTradesDia config = 3 \<and> contratos config = 1 \<and> pv = fl 0.20"
  shows "calculateTargetPoints config = Fin 833"
proof -
  have f1: "fl (500 / 3) = 5864062014805333 / 35184372088832"
  proof -
    have "fl (500 / 3) = of_int 5864062014805333 * (1 / 35184372088832)"
      by (rule fl_eval [where e = "7"]) (simp_all add: powr_minus_divide)
    then show ?thesis by simp
  qed
  have f2: "fl (3602879701896397 / 18014398509481984) = 3602879701896397 / 18014398509481984"
  proof -
    have "fl (3602879701896397 / 18014398509481984) = of_int 7205759403792794 * (1 / 36028797018963968)"
      by (rule fl_eval [where e = "-3"]) (simp_all add: powr_minus_divide)
    then show ?thesis by simp
  qed
  have f3: "fl ((5864062014805333 / 35184372088832) / (3602879701896397 / 18014398509481984))
              = 3665038759253333 / 4398046511104"
  proof -
    have "fl ((5864062014805333 / 35184372088832) / (3602879701896397 / 18014398509481984))
            = of_int 7330077518506666 * (1 / 8796093022208)"
      by (rule fl_eval [where e = "9"]) (simp_all add: powr_minus_divide)
    then show ?thesis by simp
  qed
  have r: "round (3665038759253333 / 4398046511104 :: real) = 833"
    by (simp add: round_def floor_eq_iff)
  have h1: "metaLucroDiario config = 500" and h2: "real_of_int (maxTradesDia config) = 3"
    and h3: "real_of_int (contratos config) = 1"
    using h by simp_all
  have h4: "pv = 3602879701896397 / 18014398509481984"
    using h fl_02 by simp
  have f0: "fl (500::real) = 500"
    by simp
  have f2': "fl (3602879701896397 / 18014398509481984 * 1) = 3602879701896397 / 18014398509481984"
    using f2 by simp
  have q833: "fl (fl (fl (metaLucroDiario config) / real_of_int (maxTradesDia config))
             / fl (pv * real_of_int (contratos config))) = 3665038759253333 / 4398046511104"
    unfolding h1 h2 h3 h4 f0 f1 f2' f3 ..
  show ?thesis
    unfolding targetPoints_value [OF assms(1-6)] q833 r by simp
qed

lemma targetPoints_mock: "calculateTargetPoints mockConfig = Fin 833"
proof -
  have h: "1 \<le> maxTradesDia mockConfig" "1 \<le> contratos mockConfig" "contratos mockConfig < 2 ^ 31"
      "\<bar>metaLucroDiario mockConfig\<bar> < 10 ^ 8"
      "valorPontoOf (getContractSpec (contratoPreferido mockConfig)) = Fin (fl 0.20)" "0 < fl 0.20"
    by (simp_all add: mockConfig_def valorPontoOf_def getContractSpec_def fl_02)
  have c: "metaLucroDiario mockConfig = 500 \<and> maxTradesDia mockConfig = 3
      \<and> contratos mockConfig = 1 \<and> fl 0.20 = fl 0.20"
    by (simp add: mockConfig_def)
  show ?thesis
    by (rule targetPoints_833 [OF h c])
qed



text \<open>
  Three more configurations of the test file and of the catalog. A daily target of
  103.50 over 5 trades: the quotient 20.7 / 0.2 is 103.49999999999999 in binary64, so
  the result is 103. A daily target of 1 over 10 trades: the quotient is 0.5, rounded
  up to 1. A contract name that the table inherits: the point value is missing and
  the result is NaN.
\<close>

lemma targetPoints_rounding_example:
  "calculateTargetPoints (mockConfig \<lparr> metaLucroDiario := 103.50, maxTradesDia := 5 \<rparr>) = Fin 103"
proof -
  let ?c = "mockConfig \<lparr> metaLucroDiario := 103.50, maxTradesDia := 5 \<rparr>"
  have h: "1 \<le> maxTradesDia ?c" "1 \<le> contratos ?c" "contratos ?c < 2 ^ 31"
      "\<bar>metaLucroDiario ?c\<bar> < 10 ^ 8"
      "valorPontoOf (getContractSpec (contratoPreferido ?c)) = Fin (3602879701896397 / 18014398509481984)"
      "0 < (3602879701896397 / 18014398509481984 :: real)"
    by (simp_all add: mockConfig_def valorPontoOf_def getContractSpec_def fl_02)
  have h1: "metaLucroDiario ?c = 207 / 2" and h2: "real_of_int (maxTradesDia ?c) = 5"
    and h3: "real_of_int (contratos ?c) = 1"
    by (simp_all add: mockConfig_def)
  have f0: "fl (207 / 2) = 207 / 2"
  proof -
    have "fl (207 / 2) = of_int 7283165022388224 * (1 / 70368744177664)"
      by (rule fl_eval [where e = "6"]) (simp_all add: powr_minus_divide)
    then show ?thesis by simp
  qed
  have f1: "fl (207 / 2 / 5) = 5826532017910579 / 281474976710656"
  proof -
    have "fl (207 / 2 / 5) = of_int 5826532017910579 * (1 / 281474976710656)"
      by (rule fl_eval [where e = "4"]) (simp_all add: powr_minus_divide)
    then show ?thesis by simp
  qed
  have f2: "fl (3602879701896397 / 18014398509481984 * 1) = 3602879701896397 / 18014398509481984"
  proof -
    have "fl (3602879701896397 / 18014398509481984 * 1) = of_int 7205759403792794 * (1 / 36028797018963968)"
      by (rule fl_eval [where e = "-3"]) (simp_all add: powr_minus_divide)
    then show ?thesis by simp
  qed
  have f3: "fl ((5826532017910579 / 281474976710656) / (3602879701896397 / 18014398509481984))
              = 7283165022388223 / 70368744177664"
  proof -
    have "fl ((5826532017910579 / 281474976710656) / (3602879701896397 / 18014398509481984))
            = of_int 7283165022388223 * (1 / 70368744177664)"
      by (rule fl_eval [where e = "6"]) (simp_all add: powr_minus_divide)
    then show ?thesis by simp
  qed
  have r: "round (7283165022388223 / 70368744177664 :: real) = 103"
    by (simp add: round_def floor_eq_iff)
  show ?thesis
    unfolding targetPoints_value [OF h] h1 h2 h3 f0 f1 f2 f3 r by simp
qed

lemma targetPoints_floor:
  "calculateTargetPoints (mockConfig \<lparr> metaLucroDiario := 1, maxTradesDia := 10 \<rparr>) = Fin 1"
proof -
  let ?c = "mockConfig \<lparr> metaLucroDiario := 1, maxTradesDia := 10 \<rparr>"
  have h: "1 \<le> maxTradesDia ?c" "1 \<le> contratos ?c" "contratos ?c < 2 ^ 31"
      "\<bar>metaLucroDiario ?c\<bar> < 10 ^ 8"
      "valorPontoOf (getContractSpec (contratoPreferido ?c)) = Fin (3602879701896397 / 18014398509481984)"
      "0 < (3602879701896397 / 18014398509481984 :: real)"
    by (simp_all add: mockConfig_def valorPontoOf_def getContractSpec_def fl_02)
  have h1: "metaLucroDiario ?c = 1" and h2: "real_of_int (maxTradesDia ?c) = 10"
    and h3: "real_of_int (contratos ?c) = 1"
    by (simp_all add: mockConfig_def)
  have f0: "fl (1::real) = 1"
    using fl_int [of 1] by simp
  have f1: "fl (1 / 10) = 3602879701896397 / 36028797018963968"
  proof -
    have "fl (1 / 10) = of_int 7205759403792794 * (1 / 72057594037927936)"
      by (rule fl_eval [where e = "-4"]) (simp_all add: powr_minus_divide)
    then show ?thesis by simp
  qed
  have f2: "fl (3602879701896397 / 18014398509481984 * 1) = 3602879701896397 / 18014398509481984"
  proof -
    have "fl (3602879701896397 / 18014398509481984 * 1) = of_int 7205759403792794 * (1 / 36028797018963968)"
      by (rule fl_eval [where e = "-3"]) (simp_all add: powr_minus_divide)
    then show ?thesis by simp
  qed
  have f3: "fl ((3602879701896397 / 36028797018963968) / (3602879701896397 / 18014398509481984)) = 1 / 2"
  proof -
    have "fl ((3602879701896397 / 36028797018963968) / (3602879701896397 / 18014398509481984))
            = of_int 4503599627370496 * (1 / 9007199254740992)"
      by (rule fl_eval [where e = "-1"]) (simp_all add: powr_minus_divide)
    then show ?thesis by simp
  qed
  have r: "round (1 / 2 :: real) = 1"
    by (simp add: round_def)
  show ?thesis
    unfolding targetPoints_value [OF h] h1 h2 h3 f0 f1 f2 f3 r by simp
qed

lemma jdiv_NaN: "jdiv a NaN = NaN"
  by (cases a) simp_all

lemma targetPoints_inherited_key:
  "calculateTargetPoints (mockConfig \<lparr> contratoPreferido := ''constructor'' \<rparr>) = NaN"
  by (simp add: calculateTargetPoints_def Let_def valorPonto_inherited dmul_def ddiv_def jmax_def jdiv_NaN)

section \<open>Properties of the live engine\<close>

lemma find_map_preserving:
  assumes "\<And>t. P (f t) = P t"
  shows "find P (map f xs) = map_option f (find P xs)"
  by (induction xs) (simp_all add: assms)

lemma tradesTable_logBotActivity [simp]:
  "tradesTable (logBotActivity w u c l m) = tradesTable w"
  by (simp add: logBotActivity_def)

lemma tradesTable_emit [simp]: "tradesTable (emit w e) = tradesTable w"
  by (simp add: emit_def)

lemma tradesTable_executeTrade [simp]: "tradesTable (executeTrade w ordr) = tradesTable w"
  by (simp add: executeTrade_def)

lemma updateTrailingStop_COMPRA:
  assumes "tipo trade = ''COMPRA''"
  shows "updateTrailingStop w userId trade p d =
           (if p - d > pontosStopLoss trade
            then logBotActivity
                   (w \<lparr> tradesTable := updateTradeStopLoss (tradeId trade) (p - d) (tradesTable w) \<rparr>)
                   userId (botConfigId trade) ''INFO'' (TrailingStopAtualizado (p - d))
            else w)"
  using assms by (simp add: updateTrailingStop_def Let_def)

lemma updateTrailingStop_VENDA:
  assumes "tipo trade \<noteq> ''COMPRA''"
  shows "updateTrailingStop w userId trade p d =
           (if p + d < pontosStopLoss trade
            then logBotActivity
                   (w \<lparr> tradesTable := updateTradeStopLoss (tradeId trade) (p + d) (tradesTable w) \<rparr>)
                   userId (botConfigId trade) ''INFO'' (TrailingStopAtualizado (p + d))
            else w)"
  using assms by (simp add: updateTrailingStop_def Let_def)

lemma storedTrade_updateTradeStopLoss:
  "find (\<lambda>t. tradeId t = tid) (updateTradeStopLoss tid' v rows) =
     map_option (\<lambda>t. if tradeId t = tid' then t \<lparr> pontosStopLoss := v \<rparr> else t)
       (find (\<lambda>t. tradeId t = tid) rows)"
  unfolding updateTradeStopLoss_def by (rule find_map_preserving) simp

lemma others_updateTradeStopLoss:
  "filter (\<lambda>t. tradeId t \<noteq> tid) (updateTradeStopLoss tid v rows) = filter (\<lambda>t. tradeId t \<noteq> tid) rows"
  unfolding updateTradeStopLoss_def by (induction rows) simp_all

lemma storedTrade_after_trailing:
  assumes "storedTrade w (tradeId trade) = Some trade"
  shows "storedTrade (updateTrailingStop w userId trade p d) (tradeId trade) =
           Some (trade \<lparr> pontosStopLoss :=
             (if tipo trade = ''COMPRA''
              then (if p - d > pontosStopLoss trade then p - d else pontosStopLoss trade)
              else (if p + d < pontosStopLoss trade then p + d else pontosStopLoss trade)) \<rparr>)"
proof (cases "tipo trade = ''COMPRA''")
  case True
  then show ?thesis
    using assms
    by (simp add: updateTrailingStop_COMPRA storedTrade_def storedTrade_updateTradeStopLoss)
next
  case False
  then show ?thesis
    using assms
    by (simp add: updateTrailingStop_VENDA storedTrade_def storedTrade_updateTradeStopLoss)
qed

text \<open>
  C4. The trailing-stop update never loosens a stop. For a COMPRA trade the stored
  stop-loss becomes price - distance when that candidate is strictly greater than
  the current stop-loss; for a VENDA trade it becomes price + distance when that
  candidate is strictly smaller; otherwise the call changes nothing at all. The
  stored stop-loss after the call is never below (COMPRA) or above (VENDA) the one
  before, and the rows of other trades are untouched.
\<close>

theorem trailing_stop_only_tightens:
  assumes "storedTrade w (tradeId trade) = Some trade"
  shows "(tipo trade = ''COMPRA'' \<longrightarrow>
            (if p - d > pontosStopLoss trade
             then storedStopLoss (updateTrailingStop w userId trade p d) (tradeId trade) = Some (p - d)
             else updateTrailingStop w userId trade p d = w))
       \<and> (tipo trade = ''VENDA'' \<longrightarrow>
            (if p + d < pontosStopLoss trade
             then storedStopLoss (updateTrailingStop w userId trade p d) (tradeId trade) = Some (p + d)
             else updateTrailingStop w userId trade p d = w))
       \<and> (tipo trade = ''COMPRA'' \<longrightarrow>
            (\<exists>s. storedStopLoss (updateTrailingStop w userId trade p d) (tradeId trade) = Some s
                 \<and> pontosStopLoss trade \<le> s))
       \<and> (tipo trade = ''VENDA'' \<longrightarrow>
            (\<exists>s. storedStopLoss (updateTrailingStop w userId trade p d) (tradeId trade) = Some s
                 \<and> s \<le> pontosStopLoss trade))
       \<and> filter (\<lambda>t. tradeId t \<noteq> tradeId trade) (tradesTable (updateTrailingStop w userId trade p d))
           = filter (\<lambda>t. tradeId t \<noteq> tradeId trade) (tradesTable w)"
proof -
  note st = storedTrade_after_trailing [OF assms, of userId p d]
  have a1: "storedStopLoss (updateTrailingStop w userId trade p d) (tradeId trade) = Some (p - d)"
    if "tipo trade = ''COMPRA''" and "p - d > pontosStopLoss trade"
    using st that by (simp add: storedStopLoss_def)
  have a2: "updateTrailingStop w userId trade p d = w"
    if "tipo trade = ''COMPRA''" and "\<not> p - d > pontosStopLoss trade"
    using that by (simp add: updateTrailingStop_COMPRA)
  have b1: "storedStopLoss (updateTrailingStop w userId trade p d) (tradeId trade) = Some (p + d)"
    if "tipo trade = ''VENDA''" and "p + d < pontosStopLoss trade"
    using st that by (simp add: storedStopLoss_def)
  have b2: "updateTrailingStop w userId trade p d = w"
    if "tipo trade = ''VENDA''" and "\<not> p + d < pontosStopLoss trade"
    using that by (simp add: updateTrailingStop_VENDA)
  have c: "\<exists>s. storedStopLoss (updateTrailingStop w userId trade p d) (tradeId trade) = Some s
                 \<and> pontosStopLoss trade \<le> s"
    if "tipo trade = ''COMPRA''"
    using st that by (simp add: storedStopLoss_def)
  have d: "\<exists>s. storedStopLoss (updateTrailingStop w userId trade p d) (tradeId trade) = Some s
                 \<and> s \<le> pontosStopLoss trade"
    if "tipo trade = ''VENDA''"
    using st that by (simp add: storedStopLoss_def)
  have e: "filter (\<lambda>t. tradeId t \<noteq> tradeId trade) (tradesTable (updateTrailingStop w userId trade p d))
           = filter (\<lambda>t. tradeId t \<noteq> tradeId trade) (tradesTable w)"
    by (cases "tipo trade = ''COMPRA''")
       (simp_all add: updateTrailingStop_COMPRA updateTrailingStop_VENDA others_updateTradeStopLoss)
  show ?thesis
  proof (intro conjI impI)
    assume t: "tipo trade = ''COMPRA''"
    show "if p - d > pontosStopLoss trade
          then storedStopLoss (updateTrailingStop w userId trade p d) (tradeId trade) = Some (p - d)
          else updateTrailingStop w userId trade p d = w"
      using a1 [OF t] a2 [OF t] by (cases "p - d > pontosStopLoss trade") simp_all
  next
    assume t: "tipo trade = ''VENDA''"
    show "if p + d < pontosStopLoss trade
          then storedStopLoss (updateTrailingStop w userId trade p d) (tradeId trade) = Some (p + d)
          else updateTrailingStop w userId trade p d = w"
      using b1 [OF t] b2 [OF t] by (cases "p + d < pontosStopLoss trade") simp_all
  next
    assume "tipo trade = ''COMPRA''"
    then show "\<exists>s. storedStopLoss (updateTrailingStop w userId trade p d) (tradeId trade) = Some s
                 \<and> pontosStopLoss trade \<le> s"
      by (rule c)
  next
    assume "tipo trade = ''VENDA''"
    then show "\<exists>s. storedStopLoss (updateTrailingStop w userId trade p d) (tradeId trade) = Some s
                 \<and> s \<le> pontosStopLoss trade"
      by (rule d)
  next
    show "filter (\<lambda>t. tradeId t \<noteq> tradeId trade) (tradesTable (updateTrailingStop w userId trade p d))
           = filter (\<lambda>t. tradeId t \<noteq> tradeId trade) (tradesTable w)"
      by (rule e)
  qed
qed

text \<open>
  C6. When the user already has a runtime state, \<^verbatim>\<open>startBot\<close> fails with
  AlreadyActive and the state after the call is the state before it: the registry
  of active bots, the configuration flags, the timers, the trade rows, the log and
  the events are all unchanged.
\<close>

theorem start_when_active:
  assumes "activeBots w userId \<noteq> None"
  shows "startBot w userId config now = (Inl AlreadyActive, w)"
  using assms by (simp add: startBot_def)

theorem trailing_stop_only_tightens_witness:
  "storedTrade (worldWith mockTradeLong) (tradeId mockTradeLong) = Some mockTradeLong
   \<and> storedStopLoss (updateTrailingStop (worldWith mockTradeLong) ''test-user'' mockTradeLong 112200 50)
        ''trade-1'' = Some 112150
   \<and> updateTrailingStop (worldWith mockTradeLong) ''test-user'' mockTradeLong 112040 50
        = worldWith mockTradeLong
   \<and> storedTrade (worldWith mockTradeShort) (tradeId mockTradeShort) = Some mockTradeShort
   \<and> storedStopLoss (updateTrailingStop (worldWith mockTradeShort) ''test-user'' mockTradeShort 112200 50)
        ''trade-1'' = Some 112250"
proof -
  have l: "storedTrade (worldWith mockTradeLong) (tradeId mockTradeLong) = Some mockTradeLong"
    by (simp add: storedTrade_def worldWith_def)
  have s: "storedTrade (worldWith mockTradeShort) (tradeId mockTradeShort) = Some mockTradeShort"
    by (simp add: storedTrade_def worldWith_def)
  have tl: "tipo mockTradeLong = ''COMPRA''" "pontosStopLoss mockTradeLong = 112000"
      "tradeId mockTradeLong = ''trade-1''"
    by (simp_all add: mockTradeLong_def)
  have ts: "tipo mockTradeShort = ''VENDA''" "pontosStopLoss mockTradeShort = 112500"
      "tradeId mockTradeShort = ''trade-1''"
    by (simp_all add: mockTradeShort_def)
  show ?thesis
    using l s
      trailing_stop_only_tightens [OF l, of 112200 50 "''test-user''"]
      trailing_stop_only_tightens [OF l, of 112040 50 "''test-user''"]
      trailing_stop_only_tightens [OF s, of 112200 50 "''test-user''"]
    by (simp add: tl ts)
qed

theorem start_when_active_witness:
  "fst (startBot emptyWorld ''test-user-id'' mockConfig 0) = Inr ()
   \<and> activeBots (snd (startBot emptyWorld ''test-user-id'' mockConfig 0)) ''test-user-id'' \<noteq> None
   \<and> startBot (snd (startBot emptyWorld ''test-user-id'' mockConfig 0)) ''test-user-id'' mockConfig 1
       = (Inl AlreadyActive, snd (startBot emptyWorld ''test-user-id'' mockConfig 0))"
proof -
  have f: "fst (startBot emptyWorld ''test-user-id'' mockConfig 0) = Inr ()"
    by (simp add: startBot_def emptyWorld_def Let_def)
  have h: "activeBots (snd (startBot emptyWorld ''test-user-id'' mockConfig 0)) ''test-user-id'' \<noteq> None"
    by (simp add: startBot_def emptyWorld_def Let_def emit_def logBotActivity_def)
  show ?thesis
    using f h start_when_active [OF h, of mockConfig 1] by simp
qed

lemma start_first_time:
  assumes "activeBots w userId = None"
  shows "fst (startBot w userId config now) = Inr ()
       \<and> map_option configId (activeBots (snd (startBot w userId config now)) userId) = Some (cfgId config)
       \<and> map_option bsIsActive (activeBots (snd (startBot w userId config now)) userId) = Some True"
  using assms by (simp add: startBot_def Let_def emit_def logBotActivity_def)

lemma monitorPosition_COMPRA:
  assumes "tipo trade = ''COMPRA''"
  shows "monitorPosition w userId trade md config now =
           (if jge (Fin (close md)) (pontosTakeProfit trade)
              then closePosition w userId trade (pontosTakeProfit trade) ''TAKE_PROFIT'' now
            else if close md \<le> pontosStopLoss trade
              then closePosition w userId trade (Fin (pontosStopLoss trade)) ''STOP_LOSS'' now
            else if trailingStopAtivo config
              then updateTrailingStop w userId trade (close md) (real_of_int (trailingStopPontos config))
            else w)"
  using assms by (simp add: monitorPosition_def Let_def)

lemma monitorPosition_VENDA:
  assumes "tipo trade \<noteq> ''COMPRA''"
  shows "monitorPosition w userId trade md config now =
           (if jle (Fin (close md)) (pontosTakeProfit trade)
              then closePosition w userId trade (pontosTakeProfit trade) ''TAKE_PROFIT'' now
            else if close md \<ge> pontosStopLoss trade
              then closePosition w userId trade (Fin (pontosStopLoss trade)) ''STOP_LOSS'' now
            else if trailingStopAtivo config
              then updateTrailingStop w userId trade (close md) (real_of_int (trailingStopPontos config))
            else w)"
  using assms by (simp add: monitorPosition_def Let_def)

lemma closedAs_closePosition:
  assumes "storedTrade w (tradeId trade) = Some trade" and "tradeUserId trade = userId"
  shows "closedAs (closePosition w userId trade ep rsn now) (tradeId trade)
           = Some (Some rsn, Some ep)"
proof -
  let ?res = "dmul (dmul (if tipo trade = ''COMPRA'' then dsub ep (Fin (pontosEntrada trade))
                          else dsub (Fin (pontosEntrada trade)) ep)
                         (valorPontoOf (getContractSpec (contrato trade))))
                   (Fin (real_of_int (tradeContratos trade)))"
  let ?f = "\<lambda>t. if tradeId t = tradeId trade \<and> tradeUserId t = userId
                 then closeTradeRow ep rsn ?res now t else t"
  have rows: "tradesTable (closePosition w userId trade ep rsn now) = map ?f (tradesTable w)"
    by (simp add: closePosition_def closeTrade_def Let_def)
  have "find (\<lambda>t. tradeId t = tradeId trade) (map ?f (tradesTable w))
          = map_option ?f (find (\<lambda>t. tradeId t = tradeId trade) (tradesTable w))"
    by (rule find_map_preserving) (simp add: closeTradeRow_def)
  then have "storedTrade (closePosition w userId trade ep rsn now) (tradeId trade)
          = Some (closeTradeRow ep rsn ?res now trade)"
    using assms rows by (simp add: storedTrade_def)
  then show ?thesis
    by (simp add: closedAs_def closeTradeRow_def)
qed

lemma closedAs_updateTrailingStop:
  assumes "storedTrade w (tradeId trade) = Some trade" and "status trade = ''ATIVO''"
  shows "closedAs (updateTrailingStop w userId trade p d) (tradeId trade) = None"
  using storedTrade_after_trailing [OF assms(1), of userId p d] assms(2)
  by (simp add: closedAs_def)

lemma closedAs_open:
  assumes "storedTrade w (tradeId trade) = Some trade" and "status trade = ''ATIVO''"
  shows "closedAs w (tradeId trade) = None"
  using assms by (simp add: closedAs_def)

lemma monitorPosition_exit_levels:
  assumes "storedTrade w (tradeId trade) = Some trade"
    and "tradeUserId trade = userId"
    and "status trade = ''ATIVO''"
  shows "(tipo trade = ''COMPRA'' \<longrightarrow>
            closedAs (monitorPosition w userId trade md config now) (tradeId trade) =
              (if jge (Fin (close md)) (pontosTakeProfit trade)
                 then Some (Some ''TAKE_PROFIT'', Some (pontosTakeProfit trade))
               else if close md \<le> pontosStopLoss trade
                 then Some (Some ''STOP_LOSS'', Some (Fin (pontosStopLoss trade)))
               else None))
       \<and> (tipo trade = ''VENDA'' \<longrightarrow>
            closedAs (monitorPosition w userId trade md config now) (tradeId trade) =
              (if jle (Fin (close md)) (pontosTakeProfit trade)
                 then Some (Some ''TAKE_PROFIT'', Some (pontosTakeProfit trade))
               else if close md \<ge> pontosStopLoss trade
                 then Some (Some ''STOP_LOSS'', Some (Fin (pontosStopLoss trade)))
               else None))"
proof (intro conjI impI)
  assume "tipo trade = ''COMPRA''"
  then show "closedAs (monitorPosition w userId trade md config now) (tradeId trade) =
              (if jge (Fin (close md)) (pontosTakeProfit trade)
                 then Some (Some ''TAKE_PROFIT'', Some (pontosTakeProfit trade))
               else if close md \<le> pontosStopLoss trade
                 then Some (Some ''STOP_LOSS'', Some (Fin (pontosStopLoss trade)))
               else None)"
    using closedAs_closePosition [OF assms(1,2)] closedAs_updateTrailingStop [OF assms(1,3)]
      closedAs_open [OF assms(1,3)]
    by (simp add: monitorPosition_COMPRA)
next
  assume "tipo trade = ''VENDA''"
  then have "tipo trade \<noteq> ''COMPRA''"
    by simp
  then show "closedAs (monitorPosition w userId trade md config now) (tradeId trade) =
              (if jle (Fin (close md)) (pontosTakeProfit trade)
                 then Some (Some ''TAKE_PROFIT'', Some (pontosTakeProfit trade))
               else if close md \<ge> pontosStopLoss trade
                 then Some (Some ''STOP_LOSS'', Some (Fin (pontosStopLoss trade)))
               else None)"
    using closedAs_closePosition [OF assms(1,2)] closedAs_updateTrailingStop [OF assms(1,3)]
      closedAs_open [OF assms(1,3)]
    by (simp add: monitorPosition_VENDA)
qed

text \<open>
  The monitoring tick. When the count of the day's trades has reached the limit of
  the configuration, the tick ends after the log row: no trade row is changed and
  no order is placed, whatever the price. The count includes the open trade.
\<close>

lemma monitorBot_daily_limit:
  assumes "activeBots w userId = Some botStatus"
    and "getBotConfiguration w (configId botStatus) userId = Some config"
    and "latestMarketData tick (contratoPreferido config) = Some md"
    and "maxTradesDia config \<le> fst (getDailyMetrics w userId (tickNow tick))"
  shows "tradesTable (monitorBot w tick userId) = tradesTable w
       \<and> brokerOrders (monitorBot w tick userId) = brokerOrders w"
  using assms
  by (simp add: monitorBot_def Let_def split_def logBotActivity_def)

lemma limitWorld_bot:
  "activeBots limitWorld ''test-user-id'' = Some \<lparr> bsIsActive = True, bsUserId = ''test-user-id'',
       configId = ''test-config-id'', currentPosition = Some thirdTrade, dailyTrades = 3,
       dailyProfit = Fin (- 60), lastActivity = 39600000 \<rparr>"
  by (simp add: limitWorld_def)

lemma limitWorld_config:
  "getBotConfiguration limitWorld ''test-config-id'' ''test-user-id'' = Some (mockConfig \<lparr> isActive := True \<rparr>)"
  by (simp add: getBotConfiguration_def limitWorld_def mockConfig_def)

lemma limitWorld_metrics:
  "fst (getDailyMetrics limitWorld ''test-user-id'' 39630000) = 3"
  by (simp add: getDailyMetrics_def Let_def limitWorld_def closedTrade_def thirdTrade_def)

lemma limitWorld_open:
  "getOpenTrade limitWorld ''test-user-id'' = Some thirdTrade"
  by (simp add: getOpenTrade_def limitWorld_def closedTrade_def thirdTrade_def)

lemma limitWorld_stored:
  "storedTrade limitWorld ''trade-3'' = Some thirdTrade"
  by (simp add: storedTrade_def limitWorld_def closedTrade_def thirdTrade_def)

text \<open>
  C5. A monitoring tick on which an open COMPRA position stands at its take-profit
  is not always a tick that closes it. On the day of \<open>limitWorld\<close> the open trade is
  the third of three allowed trades; the tick reads 113000, above the take-profit
  112933; \<^verbatim>\<open>monitorBot\<close> ends at the daily-limit check, the trade row stays
  open and no order is placed. The position monitoring itself, run on the same
  trade and price, closes it at the take-profit level.
\<close>

theorem monitorBot_skips_exit_at_daily_limit:
  "getOpenTrade limitWorld ''test-user-id'' = Some thirdTrade
   \<and> tipo thirdTrade = ''COMPRA''
   \<and> latestMarketData limitTick ''WIN'' = Some \<lparr> symbol = ''WIN'', close = 113000, timestamp = 39625000 \<rparr>
   \<and> jge (Fin 113000) (pontosTakeProfit thirdTrade)
   \<and> tradesTable (monitorBot limitWorld limitTick ''test-user-id'') = tradesTable limitWorld
   \<and> brokerOrders (monitorBot limitWorld limitTick ''test-user-id'') = []
   \<and> closedAs (monitorBot limitWorld limitTick ''test-user-id'') ''trade-3'' = None
   \<and> closedAs (monitorPosition limitWorld ''test-user-id'' thirdTrade
        \<lparr> symbol = ''WIN'', close = 113000, timestamp = 39625000 \<rparr>
        (mockConfig \<lparr> isActive := True \<rparr>) 39630000) ''trade-3''
       = Some (Some ''TAKE_PROFIT'', Some (Fin 112933))"
proof -
  let ?md = "\<lparr> symbol = ''WIN'', close = 113000, timestamp = 39625000 \<rparr>"
  have md: "latestMarketData limitTick (contratoPreferido (mockConfig \<lparr> isActive := True \<rparr>)) = Some ?md"
    by (simp add: limitTick_def mockConfig_def)
  have md': "latestMarketData limitTick ''WIN'' = Some ?md"
    by (simp add: limitTick_def)
  have lim: "maxTradesDia (mockConfig \<lparr> isActive := True \<rparr>)
               \<le> fst (getDailyMetrics limitWorld ''test-user-id'' (tickNow limitTick))"
    using limitWorld_metrics by (simp add: limitTick_def mockConfig_def)
  have cfg: "getBotConfiguration limitWorld
               (configId \<lparr> bsIsActive = True, bsUserId = ''test-user-id'',
                  configId = ''test-config-id'', currentPosition = Some thirdTrade, dailyTrades = 3,
                  dailyProfit = Fin (- 60), lastActivity = 39600000 \<rparr>) ''test-user-id''
             = Some (mockConfig \<lparr> isActive := True \<rparr>)"
    using limitWorld_config by simp
  note same = monitorBot_daily_limit [OF limitWorld_bot cfg md lim]
  have t: "tipo thirdTrade = ''COMPRA''" "tradeId thirdTrade = ''trade-3''"
      "tradeUserId thirdTrade = ''test-user-id''" "status thirdTrade = ''ATIVO''"
      "pontosTakeProfit thirdTrade = Fin 112933"
    by (simp_all add: thirdTrade_def)
  have st: "storedTrade limitWorld (tradeId thirdTrade) = Some thirdTrade"
    using limitWorld_stored t(2) by simp
  have orders: "brokerOrders (monitorBot limitWorld limitTick ''test-user-id'') = []"
    using same by (simp add: limitWorld_def)
  have "storedTrade (monitorBot limitWorld limitTick ''test-user-id'') ''trade-3'' = Some thirdTrade"
    using same limitWorld_stored by (simp add: storedTrade_def)
  then have notclosed: "closedAs (monitorBot limitWorld limitTick ''test-user-id'') ''trade-3'' = None"
    using t(4) by (simp add: closedAs_def)
  have pos: "closedAs (monitorPosition limitWorld ''test-user-id'' thirdTrade ?md
               (mockConfig \<lparr> isActive := True \<rparr>) 39630000) ''trade-3''
             = Some (Some ''TAKE_PROFIT'', Some (Fin 112933))"
    using monitorPosition_exit_levels [OF st t(3) t(4), of ?md "mockConfig \<lparr> isActive := True \<rparr>" 39630000]
    by (simp add: t)
  show ?thesis
    using limitWorld_open t(1) md' same orders notclosed pos by (simp add: t(5))
qed

text \<open>
  The second limit of the tick. When the day's profit has reached the target, the
  tick stops the bot, and the stop closes the open position at the price of the
  tick: on the day of \<open>targetWorld\<close> the COMPRA with levels 111950 and 112933 is
  closed at 112500 with the reason BOT_STOPPED.
\<close>

lemma closePosition_rows:
  "tradesTable (closePosition w userId trade ep rsn now) =
     fst (closeTrade (tradeId trade) userId ep rsn
            (dmul (dmul (if tipo trade = ''COMPRA'' then dsub ep (Fin (pontosEntrada trade))
                         else dsub (Fin (pontosEntrada trade)) ep)
                        (valorPontoOf (getContractSpec (contrato trade))))
                  (Fin (real_of_int (tradeContratos trade))))
            now (tradesTable w))"
  by (simp add: closePosition_def closeTrade_def Let_def)

lemma stopBot_rows:
  assumes "activeBots w userId = Some botStatus"
    and "currentPosition botStatus = Some position" and "status position = ''ATIVO''"
    and "getOpenTrade w userId = Some trade"
    and "latestMarketData tick (contrato trade) = Some md"
  shows "tradesTable (snd (stopBot w tick userId)) =
           tradesTable (closePosition w userId trade (Fin (close md)) ''BOT_STOPPED'' (tickNow tick))"
proof -
  let ?w1 = "(case intervalHandles w userId of
                None \<Rightarrow> w
              | Some intervalHandle \<Rightarrow>
                  w \<lparr> timers := (timers w)(intervalHandle := None),
                      intervalHandles := (intervalHandles w)(userId := None) \<rparr>)"
  have rows: "tradesTable ?w1 = tradesTable w"
    by (simp split: option.splits)
  then have "getOpenTrade ?w1 userId = Some trade"
    using assms(4) by (simp add: getOpenTrade_def)
  then have "forceClosePosition ?w1 tick userId ''BOT_STOPPED''
               = closePosition ?w1 userId trade (Fin (close md)) ''BOT_STOPPED'' (tickNow tick)"
    using assms(5) by (simp add: forceClosePosition_def)
  then have "tradesTable (snd (stopBot w tick userId))
               = tradesTable (closePosition ?w1 userId trade (Fin (close md)) ''BOT_STOPPED'' (tickNow tick))"
    using assms(1,2,3) by (simp add: stopBot_def Let_def)
  then show ?thesis
    unfolding closePosition_rows rows .
qed

lemma targetWorld_open:
  "getOpenTrade targetWorld ''test-user-id'' = Some thirdTrade"
  by (simp add: getOpenTrade_def targetWorld_def limitWorld_def wonTrade_def thirdTrade_def)

lemma targetWorld_metrics:
  "getDailyMetrics targetWorld ''test-user-id'' 39630000 = (2, Some (Fin 600))"
  by (simp add: getDailyMetrics_def Let_def targetWorld_def limitWorld_def wonTrade_def thirdTrade_def)

lemma monitorBot_profit_target_closes_at_price:
  "closedAs (monitorBot targetWorld targetTick ''test-user-id'') ''trade-3''
     = Some (Some ''BOT_STOPPED'', Some (Fin 112500))"
proof -
  let ?bs = "\<lparr> bsIsActive = True, bsUserId = ''test-user-id'',
       configId = ''test-config-id'', currentPosition = Some thirdTrade, dailyTrades = 2,
       dailyProfit = Fin 600, lastActivity = 39600000 \<rparr>"
  let ?md = "\<lparr> symbol = ''WIN'', close = 112500, timestamp = 39625000 \<rparr>"
  let ?w1 = "logBotActivity (targetWorld \<lparr> activeBots := (activeBots targetWorld)(''test-user-id'' \<mapsto> ?bs) \<rparr>)
               ''test-user-id'' (Some ''test-config-id'') ''INFO'' MetaDiariaAtingida"
  have bot: "activeBots targetWorld ''test-user-id'' = Some \<lparr> bsIsActive = True, bsUserId = ''test-user-id'',
       configId = ''test-config-id'', currentPosition = Some thirdTrade, dailyTrades = 3,
       dailyProfit = Fin (- 60), lastActivity = 39600000 \<rparr>"
    by (simp add: targetWorld_def limitWorld_def)
  have cfg: "getBotConfiguration targetWorld ''test-config-id'' ''test-user-id''
               = Some (mockConfig \<lparr> isActive := True \<rparr>)"
    by (simp add: getBotConfiguration_def targetWorld_def limitWorld_def mockConfig_def)
  have md: "latestMarketData targetTick ''WIN'' = Some ?md" "tickNow targetTick = 39630000"
    by (simp_all add: targetTick_def limitTick_def)
  have c: "contratoPreferido (mockConfig \<lparr> isActive := True \<rparr>) = ''WIN''"
      "maxTradesDia (mockConfig \<lparr> isActive := True \<rparr>) = 3"
      "metaLucroDiario (mockConfig \<lparr> isActive := True \<rparr>) = 500"
      "cfgId (mockConfig \<lparr> isActive := True \<rparr>) = ''test-config-id''"
    by (simp_all add: mockConfig_def)
  have tick: "monitorBot targetWorld targetTick ''test-user-id'' = snd (stopBot ?w1 targetTick ''test-user-id'')"
    by (simp add: monitorBot_def bot cfg md c targetWorld_metrics targetWorld_open Let_def)
  have t: "tipo thirdTrade = ''COMPRA''" "tradeId thirdTrade = ''trade-3''"
      "tradeUserId thirdTrade = ''test-user-id''" "status thirdTrade = ''ATIVO''"
      "contrato thirdTrade = ''WIN''"
    by (simp_all add: thirdTrade_def)
  have open1: "getOpenTrade ?w1 ''test-user-id'' = Some thirdTrade"
    using targetWorld_open by (simp add: getOpenTrade_def logBotActivity_def)
  have st1: "storedTrade ?w1 (tradeId thirdTrade) = Some thirdTrade"
    by (simp add: storedTrade_def logBotActivity_def targetWorld_def limitWorld_def wonTrade_def thirdTrade_def)
  have bot1: "activeBots ?w1 ''test-user-id'' = Some ?bs"
    by (simp add: logBotActivity_def)
  have stop: "tradesTable (snd (stopBot ?w1 targetTick ''test-user-id''))
                = tradesTable (closePosition ?w1 ''test-user-id'' thirdTrade (Fin 112500) ''BOT_STOPPED'' 39630000)"
    using stopBot_rows [OF bot1 _ t(4) open1, of targetTick ?md] by (simp add: t md)
  have "closedAs (snd (stopBot ?w1 targetTick ''test-user-id'')) ''trade-3''
          = closedAs (closePosition ?w1 ''test-user-id'' thirdTrade (Fin 112500) ''BOT_STOPPED'' 39630000) ''trade-3''"
    using stop by (simp add: closedAs_def storedTrade_def)
  then show ?thesis
    using closedAs_closePosition [OF st1 t(3), of "Fin 112500" "''BOT_STOPPED''" 39630000]
    by (simp add: tick t)
qed

section \<open>Properties of the backtest\<close>

lemma indicators_from_21:
  "21 \<le> i \<Longrightarrow> \<exists>ind. calculateIndicatorsForCandle md i = Some ind"
  by (simp add: calculateIndicatorsForCandle_def Let_def)

lemma backtestStep_flat:
  assumes "bt_currentPosition st = None" and "calculateIndicatorsForCandle md i = Some ind"
  shows "backtestStep now config md i st =
           Inr (if shouldEnter (calculateEntryScore now (md ! i) ind)
                then st \<lparr> bt_currentPosition := Some
                       \<lparr> entryPrice = close (md ! i),
                         entryTime = timestamp (md ! i),
                         posDirection = direction (calculateEntryScore now (md ! i) ind),
                         takeProfit = (if direction (calculateEntryScore now (md ! i) ind) = ''COMPRA''
                                       then dadd (Fin (close (md ! i))) (calculateTargetPoints config)
                                       else dsub (Fin (close (md ! i))) (calculateTargetPoints config)),
                         stopLoss = (if direction (calculateEntryScore now (md ! i) ind) = ''COMPRA''
                                     then dsub (Fin (close (md ! i)))
                                            (Fin (real_of_int (stopLossPontos config)))
                                     else dadd (Fin (close (md ! i)))
                                            (Fin (real_of_int (stopLossPontos config)))) \<rparr> \<rparr>
                else st)"
  using assms by (simp add: backtestStep_def Let_def)

lemma backtestStep_open_COMPRA:
  assumes "bt_currentPosition st = Some pos" and "posDirection pos = ''COMPRA''"
  shows "backtestStep now config md i st =
           Inr (if jge (Fin (close (md ! i))) (takeProfit pos)
                  then backtestClose config (md ! i) pos (takeProfit pos) ''TAKE_PROFIT'' st
                else if jle (Fin (close (md ! i))) (stopLoss pos)
                  then backtestClose config (md ! i) pos (stopLoss pos) ''STOP_LOSS'' st
                else st)"
  using assms by (simp add: backtestStep_def backtestClose_def Let_def)

lemma backtestStep_open_VENDA:
  assumes "bt_currentPosition st = Some pos" and "posDirection pos \<noteq> ''COMPRA''"
  shows "backtestStep now config md i st =
           Inr (if jle (Fin (close (md ! i))) (takeProfit pos)
                  then backtestClose config (md ! i) pos (takeProfit pos) ''TAKE_PROFIT'' st
                else if jge (Fin (close (md ! i))) (stopLoss pos)
                  then backtestClose config (md ! i) pos (stopLoss pos) ''STOP_LOSS'' st
                else st)"
  using assms by (simp add: backtestStep_def backtestClose_def Let_def)

lemma backtestExit_close [simp]:
  "backtestExit st (backtestClose config current pos ep rsn st) = Some (rsn, ep)"
  by (simp add: backtestExit_def backtestClose_def Let_def)

lemma backtestExit_same [simp]: "backtestExit st st = None"
  by (simp add: backtestExit_def)

lemma backtestInv_close:
  assumes "backtestInv md st" and "bt_currentPosition st = Some pos"
  shows "backtestInv md (backtestClose config current pos ep rsn st)"
  using assms by (simp add: backtestInv_def backtestClose_def Let_def)

lemma enteredAt_index:
  "21 \<le> i \<Longrightarrow> i < length md \<Longrightarrow> enteredAt md (timestamp (md ! i)) (close (md ! i))"
  unfolding enteredAt_def by auto

lemma backtestStep_inv:
  assumes "21 \<le> i" and "i < length md" and "backtestInv md st"
  shows "\<exists>st'. backtestStep now config md i st = Inr st' \<and> backtestInv md st'"
proof (cases "bt_currentPosition st")
  case None
  obtain ind where ind: "calculateIndicatorsForCandle md i = Some ind"
    using indicators_from_21 [OF assms(1)] by blast
  show ?thesis
    using assms(3) enteredAt_index [OF assms(1,2)]
    unfolding backtestStep_flat [OF None ind]
    by (simp add: backtestInv_def)
next
  case (Some pos)
  show ?thesis
  proof (cases "posDirection pos = ''COMPRA''")
    case True
    show ?thesis
      unfolding backtestStep_open_COMPRA [OF Some True]
      using assms(3) backtestInv_close [OF assms(3) Some] by simp
  next
    case False
    show ?thesis
      unfolding backtestStep_open_VENDA [OF Some False]
      using assms(3) backtestInv_close [OF assms(3) Some] by simp
  qed
qed

text \<open>
  The main loop from index \<open>i\<close> is one step per index of \<open>i, ..., length - 1\<close>,
  in this order; from index 21 on no step fails.
\<close>

lemma backtestLoop_over:
  "backtestLoop clock config md i st = backtestOver clock config md [i..<length md] st"
proof (induction clock config md i st rule: backtestLoop.induct)
  case (1 clock config marketData i st)
  show ?case
  proof (cases "i < length marketData")
    case True
    then have upt: "[i..<length marketData] = i # [i + 1..<length marketData]"
      by (simp add: upt_conv_Cons)
    show ?thesis
    proof (cases "backtestStep (clock i) config marketData i st")
      case (Inl e)
      then show ?thesis
        by (subst backtestLoop.simps) (simp add: True upt del: upt_Suc)
    next
      case (Inr st1)
      then show ?thesis
        using "1.IH" [OF True Inr]
        by (subst backtestLoop.simps) (simp add: True upt del: upt_Suc)
    qed
  next
    case False
    then show ?thesis
      by (subst backtestLoop.simps) simp
  qed
qed

lemma backtestOver_returns:
  "\<forall>i \<in> set idx. 21 \<le> i \<and> i < length md \<Longrightarrow> backtestInv md st \<Longrightarrow>
   \<exists>st'. backtestOver clock config md idx st = Inr st' \<and> backtestInv md st'"
proof (induction idx arbitrary: st)
  case Nil
  then show ?case by simp
next
  case (Cons i rest)
  obtain st1 where s1: "backtestStep (clock i) config md i st = Inr st1"
    and inv1: "backtestInv md st1"
    using backtestStep_inv [of i md st "clock i" config] Cons.prems by auto
  show ?case
    using Cons.IH [OF _ inv1] Cons.prems(1) s1 by simp
qed

text \<open>A step only appends to the trades, and it keeps the first entry of the run.\<close>

lemma backtestStep_appends:
  assumes "backtestStep now config md i st = Inr st'"
  shows "\<exists>xs. bt_trades st' = bt_trades st @ xs"
proof (cases "bt_currentPosition st")
  case None
  show ?thesis
  proof (cases "calculateIndicatorsForCandle md i")
    case none: None
    then show ?thesis
      using assms None by (simp add: backtestStep_def Let_def)
  next
    case (Some ind)
    show ?thesis
      using assms unfolding backtestStep_flat [OF None Some]
      by (auto split: if_splits)
  qed
next
  case (Some pos)
  show ?thesis
  proof (cases "posDirection pos = ''COMPRA''")
    case True
    show ?thesis
      using assms unfolding backtestStep_open_COMPRA [OF Some True]
      by (auto simp: backtestClose_def Let_def split: if_splits)
  next
    case False
    show ?thesis
      using assms unfolding backtestStep_open_VENDA [OF Some False]
      by (auto simp: backtestClose_def Let_def split: if_splits)
  qed
qed

lemma backtestOver_appends:
  "backtestOver clock config md idx st = Inr st' \<Longrightarrow> \<exists>xs. bt_trades st' = bt_trades st @ xs"
proof (induction idx arbitrary: st)
  case Nil
  then show ?case by simp
next
  case (Cons i rest)
  obtain st1 where s1: "backtestStep (clock i) config md i st = Inr st1"
    and r: "backtestOver clock config md rest st1 = Inr st'"
    using Cons.prems by (auto split: sum.splits)
  obtain xs where xs: "bt_trades st1 = bt_trades st @ xs"
    using backtestStep_appends [OF s1] by blast
  obtain ys where ys: "bt_trades st' = bt_trades st1 @ ys"
    using Cons.IH [OF r] by blast
  show ?case
    using xs ys by simp
qed

lemma firstEntryAt21_close:
  assumes "firstEntryAt21 md st" and "bt_currentPosition st = Some pos"
  shows "firstEntryAt21 md (backtestClose config current pos ep rsn st)"
  using assms by (simp add: firstEntryAt21_def backtestClose_def Let_def split: list.splits)

lemma backtestStep_first:
  assumes "backtestStep now config md i st = Inr st'" and "firstEntryAt21 md st"
  shows "firstEntryAt21 md st'"
proof (cases "bt_currentPosition st")
  case None
  then have ne: "bt_trades st \<noteq> []"
    using assms(2) by (auto simp: firstEntryAt21_def)
  show ?thesis
  proof (cases "calculateIndicatorsForCandle md i")
    case none: None
    then show ?thesis
      using assms(1) None by (simp add: backtestStep_def Let_def)
  next
    case (Some ind)
    show ?thesis
      using assms ne unfolding backtestStep_flat [OF None Some]
      by (auto simp: firstEntryAt21_def split: if_splits list.splits)
  qed
next
  case (Some pos)
  show ?thesis
  proof (cases "posDirection pos = ''COMPRA''")
    case True
    show ?thesis
      using assms firstEntryAt21_close [OF assms(2) Some]
      unfolding backtestStep_open_COMPRA [OF Some True]
      by (auto split: if_splits)
  next
    case False
    show ?thesis
      using assms firstEntryAt21_close [OF assms(2) Some]
      unfolding backtestStep_open_VENDA [OF Some False]
      by (auto split: if_splits)
  qed
qed

lemma backtestOver_first:
  "backtestOver clock config md idx st = Inr st' \<Longrightarrow> firstEntryAt21 md st \<Longrightarrow> firstEntryAt21 md st'"
proof (induction idx arbitrary: st)
  case Nil
  then show ?case by simp
next
  case (Cons i rest)
  obtain st1 where s1: "backtestStep (clock i) config md i st = Inr st1"
    and r: "backtestOver clock config md rest st1 = Inr st'"
    using Cons.prems(1) by (auto split: sum.splits)
  show ?case
    using Cons.IH [OF r backtestStep_first [OF s1 Cons.prems(2)]] .
qed

lemma backtestOver_entry_at_21:
  assumes "21 < length md"
    and "backtestOver clock config md [21..<length md]
           \<lparr> bt_currentPosition = None, bt_trades = [], bt_totalReturn = Fin 0 \<rparr> = Inr st"
    and "calculateIndicatorsForCandle md 21 = Some ind"
    and "shouldEnter (calculateEntryScore (clock 21) (md ! 21) ind)"
  shows "firstEntryAt21 md st"
proof -
  let ?init = "\<lparr> bt_currentPosition = None, bt_trades = [], bt_totalReturn = Fin 0 \<rparr>"
  have upt: "[21..<length md] = 21 # [22..<length md]"
    using assms(1) by (simp add: upt_conv_Cons)
  have n: "bt_currentPosition ?init = None"
    by simp
  obtain st1 where s1: "backtestStep (clock 21) config md 21 ?init = Inr st1"
    and r: "backtestOver clock config md [22..<length md] st1 = Inr st"
    using assms(2) unfolding upt by (auto split: sum.splits)
  have "firstEntryAt21 md st1"
    using s1 assms(4) unfolding backtestStep_flat [OF n assms(3)]
    by (auto simp: firstEntryAt21_def)
  then show ?thesis
    using backtestOver_first [OF r] by simp
qed

lemma backtest_exit_COMPRA:
  assumes "bt_currentPosition st = Some pos" and "posDirection pos = ''COMPRA''"
  shows "\<exists>st'. backtestStep now config md i st = Inr st'
           \<and> backtestExit st st' =
               (if jge (Fin (close (md ! i))) (takeProfit pos) then Some (''TAKE_PROFIT'', takeProfit pos)
                else if jle (Fin (close (md ! i))) (stopLoss pos) then Some (''STOP_LOSS'', stopLoss pos)
                else None)"
  unfolding backtestStep_open_COMPRA [OF assms] by simp

lemma backtest_exit_VENDA:
  assumes "bt_currentPosition st = Some pos" and "posDirection pos = ''VENDA''"
  shows "\<exists>st'. backtestStep now config md i st = Inr st'
           \<and> backtestExit st st' =
               (if jle (Fin (close (md ! i))) (takeProfit pos) then Some (''TAKE_PROFIT'', takeProfit pos)
                else if jge (Fin (close (md ! i))) (stopLoss pos) then Some (''STOP_LOSS'', stopLoss pos)
                else None)"
proof -
  have ne: "posDirection pos \<noteq> ''COMPRA''"
    using assms(2) by simp
  show ?thesis
    unfolding backtestStep_open_VENDA [OF assms(1) ne] by simp
qed

lemma backtest_exit_example:
  "\<exists>st'. backtestStep (10, 0) mockConfig (replicate 50 flatCandle) 30 openLong = Inr st'
         \<and> backtestExit openLong st' = Some (''TAKE_PROFIT'', Fin 111950)"
proof -
  have p: "bt_currentPosition openLong = Some \<lparr> entryPrice = 111900, entryTime = 0,
       posDirection = ''COMPRA'', takeProfit = Fin 111950, stopLoss = Fin 111750 \<rparr>"
    by (simp add: openLong_def)
  show ?thesis
    using backtest_exit_COMPRA [OF p, of "(10, 0)" mockConfig "replicate 50 flatCandle" 30]
    by (simp add: flatCandle_def)
qed

text \<open>
  C7. A missing series or one of fewer than 50 bars makes \<^verbatim>\<open>runBacktest\<close> fail
  with InsufficientData, which is the whole outcome. On 50 bars or more it returns
  a result: the statistics of the state reached by running the loop body once for
  each index 21, 22, ..., length - 1, in this order, from the empty state; none of
  these steps fails. Every trade of the result was entered at a candle of index 21
  or later, and when the entry evaluation at the candle of index 21 is positive, the
  first entry of the run is that candle.
\<close>

theorem runBacktest_data_threshold:
  "runBacktest clock config None = Inl InsufficientData
   \<and> (length md < 50 \<longrightarrow> runBacktest clock config (Some md) = Inl InsufficientData)
   \<and> (50 \<le> length md \<longrightarrow>
        (\<exists>st r. backtestOver clock config md [21..<length md]
                   \<lparr> bt_currentPosition = None, bt_trades = [], bt_totalReturn = Fin 0 \<rparr> = Inr st
            \<and> r = backtestStatistics st
            \<and> runBacktest clock config (Some md) = Inr r
            \<and> trades r = bt_trades st
            \<and> totalTrades r = length (trades r)
            \<and> list_all (\<lambda>t. enteredAt md (btEntryTime t) (btEntryPrice t)) (trades r)
            \<and> ((\<exists>ind. calculateIndicatorsForCandle md 21 = Some ind
                       \<and> shouldEnter (calculateEntryScore (clock 21) (md ! 21) ind))
                 \<longrightarrow> firstEntryAt21 md st)))"
proof (intro conjI impI)
  show "runBacktest clock config None = Inl InsufficientData"
    by (simp add: runBacktest_def)
next
  assume "length md < 50"
  then show "runBacktest clock config (Some md) = Inl InsufficientData"
    by (simp add: runBacktest_def)
next
  assume len: "50 \<le> length md"
  let ?init = "\<lparr> bt_currentPosition = None, bt_trades = [], bt_totalReturn = Fin 0 \<rparr>"
  have "backtestInv md ?init"
    by (simp add: backtestInv_def)
  then obtain st where st: "backtestOver clock config md [21..<length md] ?init = Inr st"
    and inv: "backtestInv md st"
    using backtestOver_returns [of "[21..<length md]" md ?init clock config] by auto
  have run: "runBacktest clock config (Some md) = Inr (backtestStatistics st)"
    using len st by (simp add: runBacktest_def backtestLoop_over)
  have tr: "trades (backtestStatistics st) = bt_trades st"
      "totalTrades (backtestStatistics st) = length (trades (backtestStatistics st))"
    by (simp_all add: backtestStatistics_def Let_def)
  have entered: "list_all (\<lambda>t. enteredAt md (btEntryTime t) (btEntryPrice t)) (trades (backtestStatistics st))"
    using inv by (simp add: tr(1) backtestInv_def)
  have first: "firstEntryAt21 md st"
    if h: "\<exists>ind. calculateIndicatorsForCandle md 21 = Some ind
             \<and> shouldEnter (calculateEntryScore (clock 21) (md ! 21) ind)"
  proof -
    obtain ind where "calculateIndicatorsForCandle md 21 = Some ind"
      and "shouldEnter (calculateEntryScore (clock 21) (md ! 21) ind)"
      using h by blast
    then show ?thesis
      using backtestOver_entry_at_21 [OF _ st] len by simp
  qed
  show "\<exists>st r. backtestOver clock config md [21..<length md] ?init = Inr st
            \<and> r = backtestStatistics st
            \<and> runBacktest clock config (Some md) = Inr r
            \<and> trades r = bt_trades st
            \<and> totalTrades r = length (trades r)
            \<and> list_all (\<lambda>t. enteredAt md (btEntryTime t) (btEntryPrice t)) (trades r)
            \<and> ((\<exists>ind. calculateIndicatorsForCandle md 21 = Some ind
                       \<and> shouldEnter (calculateEntryScore (clock 21) (md ! 21) ind))
                 \<longrightarrow> firstEntryAt21 md st)"
    using st run tr entered first by blast
qed

text \<open>
  The sample series: at index 21 the entry evaluation is positive whatever the
  moving averages are, and the position entered there is closed at index 22.
\<close>

lemma sample_length: "length sampleSeries = 50"
  by (simp add: sampleSeries_def)

lemma sample_closes_21:
  "map close (slice 1 22 sampleSeries) =
     [112100, 112000, 112100, 112000, 112100, 112000, 112100, 112000, 112100, 112000, 112100,
      112000, 112100, 112000, 112100, 112000, 112100, 112000, 112100, 112000, 112100]"
  by (simp add: slice_def sampleSeries_def drop_map take_map sampleCandle_def upt_rec)

lemma sample_candles:
  "sampleSeries ! 21 = \<lparr> symbol = ''WIN'', close = 112100, timestamp = 21 \<rparr>"
  "sampleSeries ! 22 = \<lparr> symbol = ''WIN'', close = 113100, timestamp = 22 \<rparr>"
  by (simp_all add: sampleSeries_def sampleCandle_def)

lemma sqrt_2500: "sqrt 2500 = 50"
  using real_sqrt_abs [of 50] by simp

lemma sample_indicators_21:
  "\<exists>ind. calculateIndicatorsForCandle sampleSeries 21 = Some ind
         \<and> rsi ind = Fin (400 / 9) \<and> volatilidade ind = Fin 50"
proof -
  have r: "TradingEngine_calculateRSI
             [112100, 112000, 112100, 112000, 112100, 112000, 112100, 112000, 112100, 112000, 112100,
              112000, 112100, 112000, 112100, 112000, 112100, 112000, 112100, 112000, 112100] 9
           = Fin (400 / 9)"
    by (simp add: TradingEngine_calculateRSI_def rsiLoop.simps Let_def jsub_def)
  have v: "calculateStandardDeviation (sliceLast 10
             [112100, 112000, 112100, 112000, 112100, 112000, 112100, 112000, 112100, 112000, 112100,
              112000, 112100, 112000, 112100, 112000, 112100, 112000, 112100, 112000, 112100])
           = 50"
    by (simp add: calculateStandardDeviation_def sliceLast_def Let_def sqrt_2500)
  show ?thesis
    by (simp add: calculateIndicatorsForCandle_def Let_def sample_closes_21 [unfolded One_nat_def] r v)
qed

lemma sample_enters_at_21:
  "\<exists>ind. calculateIndicatorsForCandle sampleSeries 21 = Some ind
         \<and> shouldEnter (calculateEntryScore (sessionClock 21) (sampleSeries ! 21) ind)"
proof -
  obtain ind where ind: "calculateIndicatorsForCandle sampleSeries 21 = Some ind"
    and r: "rsi ind = Fin (400 / 9)" and v: "volatilidade ind = Fin 50"
    using sample_indicators_21 by blast
  have "60 \<le> score (calculateEntryScore (sessionClock 21) (sampleSeries ! 21) ind)"
    unfolding score_sum by (simp add: r v rsiPoints_def sessionClock_def)
  then show ?thesis
    using ind by (simp add: shouldEnter_threshold)
qed

lemma sample_first_trade:
  assumes "backtestOver sessionClock mockConfig sampleSeries [21..<length sampleSeries]
             \<lparr> bt_currentPosition = None, bt_trades = [], bt_totalReturn = Fin 0 \<rparr> = Inr st"
  shows "\<exists>t ts. bt_trades st = t # ts \<and> btEntryTime t = 21 \<and> btEntryPrice t = 112100 \<and> exitTime t = 22"
proof -
  let ?init = "\<lparr> bt_currentPosition = None, bt_trades = [], bt_totalReturn = Fin 0 \<rparr>"
  obtain ind where ind: "calculateIndicatorsForCandle sampleSeries 21 = Some ind"
    and enter: "shouldEnter (calculateEntryScore (sessionClock 21) (sampleSeries ! 21) ind)"
    using sample_enters_at_21 by blast
  let ?d = "direction (calculateEntryScore (sessionClock 21) (sampleSeries ! 21) ind)"
  let ?pos = "\<lparr> entryPrice = 112100, entryTime = 21, posDirection = ?d,
                 takeProfit = (if ?d = ''COMPRA'' then Fin 112933 else Fin 111267),
                 stopLoss = (if ?d = ''COMPRA'' then Fin 111950 else Fin 112250) \<rparr>"
  have upt: "[21..<length sampleSeries] = 21 # 22 # [23..<50]"
    by (simp add: sample_length upt_conv_Cons)
  have n: "bt_currentPosition ?init = None"
    by simp
  have lv: "dadd (Fin 112100) (Fin 833) = Fin 112933" "dsub (Fin 112100) (Fin 833) = Fin 111267"
      "dsub (Fin 112100) (Fin 150) = Fin 111950" "dadd (Fin 112100) (Fin 150) = Fin 112250"
    by (simp_all add: dadd_def dsub_def jsub_def)
  have sl: "stopLossPontos mockConfig = 150"
    by (simp add: mockConfig_def)
  have s21: "backtestStep (sessionClock 21) mockConfig sampleSeries 21 ?init
               = Inr (?init \<lparr> bt_currentPosition := Some ?pos \<rparr>)"
    unfolding backtestStep_flat [OF n ind]
    using enter by (simp add: sample_candles targetPoints_mock lv sl)
  let ?st1 = "?init \<lparr> bt_currentPosition := Some ?pos \<rparr>"
  have p1: "bt_currentPosition ?st1 = Some ?pos"
    by simp
  have s22: "\<exists>st2 t. backtestStep (sessionClock 22) mockConfig sampleSeries 22 ?st1 = Inr st2
               \<and> bt_trades st2 = [t] \<and> btEntryTime t = 21 \<and> btEntryPrice t = 112100 \<and> exitTime t = 22"
  proof (cases "?d = ''COMPRA''")
    case True
    then have c: "posDirection ?pos = ''COMPRA''"
      by simp
    show ?thesis
      unfolding backtestStep_open_COMPRA [OF p1 c]
      using True by (simp add: sample_candles backtestClose_def Let_def)
  next
    case False
    then have c: "posDirection ?pos \<noteq> ''COMPRA''"
      by simp
    show ?thesis
      unfolding backtestStep_open_VENDA [OF p1 c]
      using False by (simp add: sample_candles backtestClose_def Let_def)
  qed
  then obtain st2 t where s22': "backtestStep (sessionClock 22) mockConfig sampleSeries 22 ?st1 = Inr st2"
    and t: "bt_trades st2 = [t]" "btEntryTime t = 21" "btEntryPrice t = 112100" "exitTime t = 22"
    by blast
  have "backtestOver sessionClock mockConfig sampleSeries (21 # 22 # [23..<50]) ?init
          = backtestOver sessionClock mockConfig sampleSeries [23..<50] st2"
    by (simp only: backtestOver.simps s21 s22' sum.case)
  then have rest: "backtestOver sessionClock mockConfig sampleSeries [23..<50] st2 = Inr st"
    using assms unfolding upt by (simp only:)
  obtain xs where "bt_trades st = bt_trades st2 @ xs"
    using backtestOver_appends [OF rest] by blast
  then show ?thesis
    using t by simp
qed

theorem runBacktest_data_threshold_witness:
  "length (take 49 sampleSeries) < 50
   \<and> runBacktest sessionClock mockConfig (Some (take 49 sampleSeries)) = Inl InsufficientData
   \<and> 50 \<le> length sampleSeries
   \<and> (\<exists>ind. calculateIndicatorsForCandle sampleSeries 21 = Some ind
          \<and> shouldEnter (calculateEntryScore (sessionClock 21) (sampleSeries ! 21) ind))
   \<and> (\<exists>st r. backtestOver sessionClock mockConfig sampleSeries [21..<length sampleSeries]
                \<lparr> bt_currentPosition = None, bt_trades = [], bt_totalReturn = Fin 0 \<rparr> = Inr st
          \<and> runBacktest sessionClock mockConfig (Some sampleSeries) = Inr r
          \<and> totalTrades r = length (trades r)
          \<and> firstEntryAt21 sampleSeries st
          \<and> (\<exists>t ts. trades r = t # ts
                \<and> btEntryTime t = timestamp (sampleSeries ! 21) \<and> btEntryTime t = 21
                \<and> btEntryPrice t = close (sampleSeries ! 21) \<and> btEntryPrice t = 112100
                \<and> exitTime t = 22))"
proof -
  have l49: "length (take 49 sampleSeries) < 50"
    by (simp add: sample_length)
  have l50: "50 \<le> length sampleSeries"
    by (simp add: sample_length)
  have short: "runBacktest sessionClock mockConfig (Some (take 49 sampleSeries)) = Inl InsufficientData"
    using runBacktest_data_threshold [of sessionClock mockConfig "take 49 sampleSeries"] l49 by blast
  obtain st r where over: "backtestOver sessionClock mockConfig sampleSeries [21..<length sampleSeries]
                \<lparr> bt_currentPosition = None, bt_trades = [], bt_totalReturn = Fin 0 \<rparr> = Inr st"
    and run: "runBacktest sessionClock mockConfig (Some sampleSeries) = Inr r"
    and tr: "trades r = bt_trades st" "totalTrades r = length (trades r)"
    and first: "firstEntryAt21 sampleSeries st"
    using runBacktest_data_threshold [of sessionClock mockConfig sampleSeries] l50 sample_enters_at_21
    by blast
  obtain t ts where t: "bt_trades st = t # ts" "btEntryTime t = 21" "btEntryPrice t = 112100" "exitTime t = 22"
    using sample_first_trade [OF over] by blast
  have "\<exists>t ts. trades r = t # ts
                \<and> btEntryTime t = timestamp (sampleSeries ! 21) \<and> btEntryTime t = 21
                \<and> btEntryPrice t = close (sampleSeries ! 21) \<and> btEntryPrice t = 112100
                \<and> exitTime t = 22"
    using t first by (simp add: tr(1) firstEntryAt21_def)
  then show ?thesis
    using l49 l50 short sample_enters_at_21 over run tr(2) first by blast
qed

end
